theory Spec2Isabelle
  imports Complex_Main "HOL-Library.Word"
begin

section \<open>Data model\<close>

text \<open>
  The library writes PGF/TikZ text for Qt geometry. The Qt value types it consumes are
  modelled by what the code reads from them. A \<open>qreal\<close> is modelled by a real number:
  the code only compares a \<open>qreal\<close> with zero and hands it to Qt's number formatting.
\<close>

type_synonym qreal = real

text \<open>\<open>QPointF\<close>: the code reads \<open>x()\<close> and \<open>y()\<close>.\<close>

record QPointF =
  x :: qreal
  y :: qreal

text \<open>
  \<open>QPainterPath::Element\<close> has the fields \<open>x\<close>, \<open>y\<close> and \<open>type\<close> and converts
  implicitly to a \<open>QPointF\<close> (the code calls \<open>toCoord(element)\<close>); it is the record
  extension of the point.
\<close>

datatype ElementType = MoveToElement | LineToElement | CurveToElement | CurveToDataElement

record Element = QPointF +
  type :: ElementType

text \<open>A \<open>QPainterPath\<close> is its element sequence (\<open>elementCount\<close>, \<open>elementAt\<close>).\<close>

type_synonym QPainterPath = "Element list"

text \<open>
  \<open>QPainterPath::isEmpty()\<close> of Qt: true when the path has no elements or consists of a
  single \<open>MoveToElement\<close>.
\<close>

definition isEmpty_path :: "QPainterPath \<Rightarrow> bool" where
  "isEmpty_path path =
     (path = [] \<or> (length path = 1 \<and> type (hd path) = MoveToElement))"

text \<open>The backslash character, which cannot be written inside a string literal.\<close>

definition bslash :: char where
  "bslash = CHR 0x5C"

section \<open>The private class: coordinates and path compilation\<close>

text \<open>
  \<open>QTikzPicturePrivate::toCoord\<close>. The number formatting of \<open>QLocale::c()\<close> is Qt's and
  works on doubles; it is the parameter \<open>num\<close>. In \<open>src/src/qtikzpicture.cpp\<close> it is
  \<open>l.toString(v)\<close>, in the later revision with \<open>writePath\<close> it is
  \<open>l.toString(v, 'g', precision)\<close>.
\<close>

definition toCoord :: "(qreal \<Rightarrow> string) \<Rightarrow> 'a QPointF_scheme \<Rightarrow> string" where
  "toCoord num pt = ''('' @ num (x pt) @ '', '' @ num (y pt) @ '')''"

text \<open>\<open>QStringList::join(separator)\<close>.\<close>

fun join :: "string \<Rightarrow> string list \<Rightarrow> string" where
  "join sep [] = []"
| "join sep [s] = s"
| "join sep (s # t # rest) = s @ sep @ join sep (t # rest)"

text \<open>
  The local variables of \<open>toTikzPath(const QPainterPath &)\<close>: \<open>QStringList pathList\<close>,
  \<open>QString currentPath\<close> and \<open>int currentControlPoint\<close>.
\<close>

record PathState =
  pathList :: "string list"
  currentPath :: string
  currentControlPoint :: int

text \<open>The body of the \<open>for\<close> loop: the \<open>switch\<close> over \<open>element.type\<close>.\<close>

definition toTikzPath_step :: "(qreal \<Rightarrow> string) \<Rightarrow> PathState \<Rightarrow> Element \<Rightarrow> PathState" where
  "toTikzPath_step num st element =
     (case type element of
        MoveToElement \<Rightarrow>
          (let pathList1 = (if currentPath st \<noteq> []
                            then pathList st @ [currentPath st @ '' -- cycle'']
                            else pathList st);
               indentString = (if length pathList1 \<noteq> 0 then ''    '' else [])
           in st\<lparr>pathList := pathList1, currentPath := indentString @ toCoord num element\<rparr>)
      | LineToElement \<Rightarrow>
          st\<lparr>currentPath := currentPath st @ '' -- '' @ toCoord num element\<rparr>
      | CurveToElement \<Rightarrow>
          st\<lparr>currentPath := currentPath st @ '' .. controls '' @ toCoord num element,
             currentControlPoint := 1\<rparr>
      | CurveToDataElement \<Rightarrow>
          (if currentControlPoint st = 1
           then st\<lparr>currentPath := currentPath st @ '' and '' @ toCoord num element,
                   currentControlPoint := currentControlPoint st + 1\<rparr>
           else if currentControlPoint st = 2
           then st\<lparr>currentPath := currentPath st @ '' .. '' @ toCoord num element,
                   currentControlPoint := 0\<rparr>
           else st))"

text \<open>The \<open>for\<close> loop over the elements, in order.\<close>

fun toTikzPath_loop :: "(qreal \<Rightarrow> string) \<Rightarrow> Element list \<Rightarrow> PathState \<Rightarrow> PathState" where
  "toTikzPath_loop num [] st = st"
| "toTikzPath_loop num (element # rest) st =
     toTikzPath_loop num rest (toTikzPath_step num st element)"

definition initialPathState :: PathState where
  "initialPathState = \<lparr>pathList = [], currentPath = [], currentControlPoint = 0\<rparr>"

text \<open>
  \<open>QTikzPicturePrivate::toTikzPath(const QPainterPath &)\<close>: after the loop the function
  returns \<open>pathList.join("\n")\<close>; \<open>currentPath\<close> is not read again.
\<close>

definition toTikzPath :: "(qreal \<Rightarrow> string) \<Rightarrow> QPainterPath \<Rightarrow> string" where
  "toTikzPath num path =
     (if isEmpty_path path then []
      else join ''\<newline>'' (pathList (toTikzPath_loop num path initialPathState)))"

section \<open>The output stream\<close>

text \<open>
  \<open>QTextStream\<close>, as far as the library uses it: the text written so far and the two
  settings for real numbers. The stream belongs to the caller and the library holds a
  pointer to it; the model keeps its value inside the state of the picture.
\<close>

datatype RealNumberNotation = SmartNotation | FixedNotation | ScientificNotation

record QTextStream =
  buf :: string
  realNumberPrecision :: int
  realNumberNotation :: RealNumberNotation

text \<open>
  \<open>QTextStream::setRealNumberPrecision\<close> of Qt rejects a negative argument: it prints a
  warning and falls back to the default precision 6.
\<close>

definition setRealNumberPrecision :: "int \<Rightarrow> QTextStream \<Rightarrow> QTextStream" where
  "setRealNumberPrecision p s =
     (if p < 0 then s\<lparr>realNumberPrecision := 6\<rparr> else s\<lparr>realNumberPrecision := p\<rparr>)"

definition setRealNumberNotation :: "RealNumberNotation \<Rightarrow> QTextStream \<Rightarrow> QTextStream" where
  "setRealNumberNotation n s = s\<lparr>realNumberNotation := n\<rparr>"

text \<open>
  Qt's conversions of numbers to text work on doubles and are not part of the library.
  They are parameters of the model: \<open>localeString v\<close> is \<open>QLocale::c().toString(v)\<close>,
  \<open>localeStringG v p\<close> is \<open>QLocale::c().toString(v, 'g', p)\<close>, \<open>streamReal n p v\<close> is
  what a stream with notation \<open>n\<close> and precision \<open>p\<close> writes for the double \<open>v\<close>, and
  \<open>streamInt i\<close> what a stream writes for the \<open>int\<close> \<open>i\<close>.
\<close>

record QtNumbers =
  localeString :: "qreal \<Rightarrow> string"
  localeStringG :: "qreal \<Rightarrow> int \<Rightarrow> string"
  streamReal :: "RealNumberNotation \<Rightarrow> int \<Rightarrow> qreal \<Rightarrow> string"
  streamInt :: "int \<Rightarrow> string"

text \<open>The operands of \<open>operator<<\<close> on the stream: text, a double, an int.\<close>

datatype Token = Text string | Double qreal | Integer int

fun put :: "QtNumbers \<Rightarrow> QTextStream \<Rightarrow> Token \<Rightarrow> QTextStream" where
  "put Q s (Text t) = s\<lparr>buf := buf s @ t\<rparr>"
| "put Q s (Double v) =
     s\<lparr>buf := buf s @ streamReal Q (realNumberNotation s) (realNumberPrecision s) v\<rparr>"
| "put Q s (Integer i) = s\<lparr>buf := buf s @ streamInt Q i\<rparr>"

text \<open>A chain \<open>stream << a << b << c\<close>.\<close>

definition puts :: "QtNumbers \<Rightarrow> QTextStream \<Rightarrow> Token list \<Rightarrow> QTextStream" where
  "puts Q s toks = foldl (put Q) s toks"

section \<open>Further Qt value types\<close>

text \<open>\<open>QRectF\<close> with Qt's members; \<open>isEmpty\<close>, \<open>topLeft\<close> and \<open>bottomRight\<close> as in Qt.\<close>

record QRectF =
  xp :: qreal
  yp :: qreal
  wd :: qreal
  ht :: qreal

definition isEmpty_rect :: "QRectF \<Rightarrow> bool" where
  "isEmpty_rect rect = (wd rect \<le> 0 \<or> ht rect \<le> 0)"

definition topLeft :: "QRectF \<Rightarrow> QPointF" where
  "topLeft rect = \<lparr>x = xp rect, y = yp rect\<rparr>"

definition bottomRight :: "QRectF \<Rightarrow> QPointF" where
  "bottomRight rect = \<lparr>x = xp rect + wd rect, y = yp rect + ht rect\<rparr>"

text \<open>\<open>QLineF\<close>: its two end points.\<close>

record QLineF =
  p1 :: QPointF
  p2 :: QPointF

text \<open>
  \<open>QPolygonF\<close> is a vector of points; \<open>isClosed()\<close> of Qt is true when the polygon is
  not empty and its first and last points are equal.
\<close>

type_synonym QPolygonF = "QPointF list"

definition isClosed :: "QPolygonF \<Rightarrow> bool" where
  "isClosed polygon = (polygon \<noteq> [] \<and> hd polygon = last polygon)"

text \<open>
  Modelled from the spec: the type \<open>QColor\<close> is Qt's and not part of the sources. The spec
  describes a color as an RGB triple with channels from 0 to 255, whose hex representation
  has two zero-padded hex digits per channel, and names eight basic colors by their
  canonical RGB values. The channels are bytes; \<open>name()\<close> is \<open>#rrggbb\<close> in lower-case hex
  and \<open>redF()\<close>, \<open>greenF()\<close>, \<open>blueF()\<close> are the channels scaled to the unit interval.
\<close>

record QColor =
  red :: "8 word"
  green :: "8 word"
  blue :: "8 word"

definition hexDigit :: "nat \<Rightarrow> char" where
  "hexDigit n = ''0123456789abcdef'' ! n"

definition hex2 :: "8 word \<Rightarrow> string" where
  "hex2 v = [hexDigit (unat v div 16), hexDigit (unat v mod 16)]"

definition QColor_name :: "QColor \<Rightarrow> string" where
  "QColor_name color = ''#'' @ hex2 (red color) @ hex2 (green color) @ hex2 (blue color)"

definition redF :: "QColor \<Rightarrow> qreal" where
  "redF color = real (unat (red color)) / 255"

definition greenF :: "QColor \<Rightarrow> qreal" where
  "greenF color = real (unat (green color)) / 255"

definition blueF :: "QColor \<Rightarrow> qreal" where
  "blueF color = real (unat (blue color)) / 255"

definition Qt_red :: QColor where "Qt_red = \<lparr>red = 255, green = 0, blue = 0\<rparr>"
definition Qt_green :: QColor where "Qt_green = \<lparr>red = 0, green = 255, blue = 0\<rparr>"
definition Qt_blue :: QColor where "Qt_blue = \<lparr>red = 0, green = 0, blue = 255\<rparr>"
definition Qt_black :: QColor where "Qt_black = \<lparr>red = 0, green = 0, blue = 0\<rparr>"
definition Qt_white :: QColor where "Qt_white = \<lparr>red = 255, green = 255, blue = 255\<rparr>"
definition Qt_cyan :: QColor where "Qt_cyan = \<lparr>red = 0, green = 255, blue = 255\<rparr>"
definition Qt_magenta :: QColor where "Qt_magenta = \<lparr>red = 255, green = 0, blue = 255\<rparr>"
definition Qt_yellow :: QColor where "Qt_yellow = \<lparr>red = 255, green = 255, blue = 0\<rparr>"

text \<open>
  \<open>QString::replace(before, after, Qt::CaseInsensitive)\<close> for a \<open>before\<close> and an
  \<open>after\<close> of one character each, as \<open>registerColor\<close> calls it: every occurrence of the
  character is replaced. The \<open>before\<close> characters are the digits, which case folding
  leaves alone.
\<close>

definition replace :: "char \<Rightarrow> char \<Rightarrow> string \<Rightarrow> string" where
  "replace before after s = map (\<lambda>c. if c = before then after else c) s"

section \<open>The picture: \<open>src/src/qtikzpicture.cpp\<close>\<close>

text \<open>
  \<open>QTikzPicturePrivate\<close>: the stream pointer (\<open>None\<close> is the null pointer), the hash of
  registered color names and the precision. Every member function of \<open>QTikzPicture\<close>
  takes the private data and returns it updated.
\<close>

record QTikzPicturePrivate =
  ts :: "QTextStream option"
  colors :: "string \<rightharpoonup> bool"
  precision :: int

text \<open>The constructor.\<close>

definition QTikzPicture :: QTikzPicturePrivate where
  "QTikzPicture = \<lparr>ts = None, colors = Map.empty, precision = 2\<rparr>"

definition setStream :: "QTextStream option \<Rightarrow> int \<Rightarrow> QTikzPicturePrivate \<Rightarrow> QTikzPicturePrivate" where
  "setStream textStream prec d =
     (let d1 = d\<lparr>ts := textStream\<rparr>;
          d2 = d1\<lparr>precision := max 0 prec\<rparr>
      in case ts d2 of
           None \<Rightarrow> d2
         | Some s \<Rightarrow>
             d2\<lparr>ts := Some (setRealNumberNotation FixedNotation (setRealNumberPrecision prec s))\<rparr>)"

text \<open>
  \<open>registerColor\<close>, in parts. \<open>transliterate\<close> is the sequence of the ten calls of
  \<open>name.replace\<close>, in the order of the source. \<open>registerColor_name\<close> is the name that
  the function computes once the predefined colors are excluded: \<open>name()\<close> without its
  leading \<open>#\<close>, transliterated, with the prefix \<open>c\<close>. \<open>definecolor\<close> is the one write
  statement of the function. \<open>registerColor\<close> returns the name and the state.
\<close>

definition transliterate :: "string \<Rightarrow> string" where
  "transliterate n1 =
     (let n2 = replace CHR ''0'' CHR ''q'' n1;
          n3 = replace CHR ''1'' CHR ''r'' n2;
          n4 = replace CHR ''2'' CHR ''s'' n3;
          n5 = replace CHR ''3'' CHR ''t'' n4;
          n6 = replace CHR ''4'' CHR ''u'' n5;
          n7 = replace CHR ''5'' CHR ''v'' n6;
          n8 = replace CHR ''6'' CHR ''w'' n7;
          n9 = replace CHR ''7'' CHR ''x'' n8;
          n10 = replace CHR ''8'' CHR ''y'' n9
      in replace CHR ''9'' CHR ''z'' n10)"

definition registerColor_name :: "QColor \<Rightarrow> string" where
  "registerColor_name color =
     (let n0 = QColor_name color;
          n1 = (if n0 \<noteq> [] \<and> hd n0 = CHR ''#'' then drop 1 n0 else n0)
      in CHR ''c'' # transliterate n1)"

definition definecolor :: "QtNumbers \<Rightarrow> string \<Rightarrow> QColor \<Rightarrow> QTextStream \<Rightarrow> QTextStream" where
  "definecolor Q nm color s =
     puts Q s [Text (bslash # ''definecolor{''), Text nm, Text ''}{rgb}{'',
               Double (redF color), Text '', '', Double (greenF color),
               Text '', '', Double (blueF color), Text ''}\<newline>'']"

definition registerColor :: "QtNumbers \<Rightarrow> QColor \<Rightarrow> QTikzPicturePrivate \<Rightarrow> string \<times> QTikzPicturePrivate" where
  "registerColor Q color d =
     (if color = Qt_red then (''red'', d)
      else if color = Qt_green then (''green'', d)
      else if color = Qt_blue then (''blue'', d)
      else if color = Qt_black then (''black'', d)
      else if color = Qt_white then (''white'', d)
      else if color = Qt_cyan then (''cyan'', d)
      else if color = Qt_magenta then (''magenta'', d)
      else if color = Qt_yellow then (''yellow'', d)
      else
        (let nm = registerColor_name color in
         if nm \<notin> dom (colors d) then
           (let d1 = (case ts d of
                        None \<Rightarrow> d
                      | Some s \<Rightarrow> d\<lparr>ts := Some (definecolor Q nm color s)\<rparr>)
            in (nm, d1\<lparr>colors := (colors d1)(nm \<mapsto> True)\<rparr>))
         else (nm, d)))"

text \<open>
  A caller that registers the same color \<open>n\<close> times in a row, collecting the returned
  names.
\<close>

fun registerColor_times :: "QtNumbers \<Rightarrow> nat \<Rightarrow> QColor \<Rightarrow> QTikzPicturePrivate \<Rightarrow> string list \<times> QTikzPicturePrivate" where
  "registerColor_times Q 0 color d = ([], d)"
| "registerColor_times Q (Suc n) color d =
     (case registerColor Q color d of
        (nm, d1) \<Rightarrow>
          (case registerColor_times Q n color d1 of (nms, d2) \<Rightarrow> (nm # nms, d2)))"

text \<open>The eight predefined colors that \<open>registerColor\<close> tests first.\<close>

definition predefined :: "QColor set" where
  "predefined =
     {Qt_red, Qt_green, Qt_blue, Qt_black, Qt_white, Qt_cyan, Qt_magenta, Qt_yellow}"

definition begin_tikzpicture :: "QtNumbers \<Rightarrow> string \<Rightarrow> QTikzPicturePrivate \<Rightarrow> QTikzPicturePrivate" where
  "begin_tikzpicture Q options d =
     (case ts d of
        None \<Rightarrow> d
      | Some s \<Rightarrow>
          if options = []
          then d\<lparr>ts := Some (puts Q s [Text (bslash # ''begin{tikzpicture}\<newline>'')])\<rparr>
          else d\<lparr>ts := Some (puts Q s
                 [Text (bslash # ''begin{tikzpicture}[''), Text options, Text '']\<newline>''])\<rparr>)"

definition end_tikzpicture :: "QtNumbers \<Rightarrow> QTikzPicturePrivate \<Rightarrow> QTikzPicturePrivate" where
  "end_tikzpicture Q d =
     (case ts d of
        None \<Rightarrow> d
      | Some s \<Rightarrow> d\<lparr>ts := Some (puts Q s [Text (bslash # ''end{tikzpicture}\<newline>'')])\<rparr>)"

definition beginScope :: "QtNumbers \<Rightarrow> string \<Rightarrow> QTikzPicturePrivate \<Rightarrow> QTikzPicturePrivate" where
  "beginScope Q options d =
     (case ts d of
        None \<Rightarrow> d
      | Some s \<Rightarrow>
          if options = []
          then d\<lparr>ts := Some (puts Q s [Text (bslash # ''begin{scope}\<newline>'')])\<rparr>
          else d\<lparr>ts := Some (puts Q s
                 [Text (bslash # ''begin{scope}[''), Text options, Text '']\<newline>''])\<rparr>)"

definition endScope :: "QtNumbers \<Rightarrow> QTikzPicturePrivate \<Rightarrow> QTikzPicturePrivate" where
  "endScope Q d =
     (case ts d of
        None \<Rightarrow> d
      | Some s \<Rightarrow> d\<lparr>ts := Some (puts Q s [Text (bslash # ''end{scope}\<newline>'')])\<rparr>)"

text \<open>The loop of \<open>newline\<close>: \<open>for (int i = 0; i < count; ++i)\<close>.\<close>

function newline_loop :: "QtNumbers \<Rightarrow> int \<Rightarrow> int \<Rightarrow> QTextStream \<Rightarrow> QTextStream" where
  "newline_loop Q i count s =
     (if i < count then newline_loop Q (i + 1) count (puts Q s [Text ''\<newline>'']) else s)"
  by pat_completeness auto
termination
  by (relation "measure (\<lambda>(Q, i, count, s). nat (count - i))") auto

definition newline :: "QtNumbers \<Rightarrow> int \<Rightarrow> QTikzPicturePrivate \<Rightarrow> QTikzPicturePrivate" where
  "newline Q count d =
     (case ts d of
        None \<Rightarrow> d
      | Some s \<Rightarrow> d\<lparr>ts := Some (newline_loop Q 0 count s)\<rparr>)"

definition comment :: "QtNumbers \<Rightarrow> string \<Rightarrow> QTikzPicturePrivate \<Rightarrow> QTikzPicturePrivate" where
  "comment Q text d =
     (case ts d of
        None \<Rightarrow> d
      | Some s \<Rightarrow> d\<lparr>ts := Some (puts Q s [Text ''% '', Text text, Text ''\<newline>''])\<rparr>)"

text \<open>\<open>QTikzPicturePrivate::toTikzPath(const QRectF &)\<close>.\<close>

definition toTikzPath_rect :: "(qreal \<Rightarrow> string) \<Rightarrow> QRectF \<Rightarrow> string" where
  "toTikzPath_rect num rect =
     (if isEmpty_rect rect then []
      else toCoord num (topLeft rect) @ '' rectangle '' @ toCoord num (bottomRight rect))"

text \<open>\<open>path(const QPainterPath &, options)\<close> and \<open>path(const QRectF &, options)\<close>.\<close>

definition path_QPainterPath :: "QtNumbers \<Rightarrow> QPainterPath \<Rightarrow> string \<Rightarrow> QTikzPicturePrivate \<Rightarrow> QTikzPicturePrivate" where
  "path_QPainterPath Q path options d =
     (case ts d of
        None \<Rightarrow> d
      | Some s \<Rightarrow>
          (let tikzPath = toTikzPath (localeString Q) path in
           if tikzPath = [] then d
           else
             (let tikzCommand = (if options = [] then bslash # ''path ''
                                 else (bslash # ''path['') @ options @ ''] '')
              in d\<lparr>ts := Some (puts Q s [Text tikzCommand, Text tikzPath, Text '';\<newline>''])\<rparr>)))"

definition path_QRectF :: "QtNumbers \<Rightarrow> QRectF \<Rightarrow> string \<Rightarrow> QTikzPicturePrivate \<Rightarrow> QTikzPicturePrivate" where
  "path_QRectF Q rect options d =
     (case ts d of
        None \<Rightarrow> d
      | Some s \<Rightarrow>
          (let tikzPath = toTikzPath_rect (localeString Q) rect in
           if tikzPath = [] then d
           else
             (let tikzCommand = (if options = [] then bslash # ''path ''
                                 else (bslash # ''path['') @ options @ ''] '')
              in d\<lparr>ts := Some (puts Q s [Text tikzCommand, Text tikzPath, Text '';\<newline>''])\<rparr>)))"

text \<open>\<open>clip(const QPainterPath &)\<close> and \<open>clip(const QRectF &)\<close>.\<close>

definition clip_QPainterPath :: "QtNumbers \<Rightarrow> QPainterPath \<Rightarrow> QTikzPicturePrivate \<Rightarrow> QTikzPicturePrivate" where
  "clip_QPainterPath Q path d =
     (case ts d of
        None \<Rightarrow> d
      | Some s \<Rightarrow>
          (let tikzPath = toTikzPath (localeString Q) path in
           if tikzPath = [] then d
           else d\<lparr>ts := Some (puts Q s [Text (bslash # ''clip ''), Text tikzPath, Text '';\<newline>''])\<rparr>))"

definition clip_QRectF :: "QtNumbers \<Rightarrow> QRectF \<Rightarrow> QTikzPicturePrivate \<Rightarrow> QTikzPicturePrivate" where
  "clip_QRectF Q rect d =
     (case ts d of
        None \<Rightarrow> d
      | Some s \<Rightarrow>
          (let tikzPath = toTikzPath_rect (localeString Q) rect in
           if tikzPath = [] then d
           else d\<lparr>ts := Some (puts Q s [Text (bslash # ''clip ''), Text tikzPath, Text '';\<newline>''])\<rparr>))"

text \<open>
  The common start of \<open>circle\<close> and the two \<open>line\<close> functions: \<open>\draw\<close> and, when the
  options are not empty, the options in brackets.
\<close>

definition draw_head :: "QtNumbers \<Rightarrow> string \<Rightarrow> QTextStream \<Rightarrow> QTextStream" where
  "draw_head Q options s =
     (let s1 = puts Q s [Text (bslash # ''draw'')]
      in if options \<noteq> [] then puts Q s1 [Text ''['', Text options, Text '']''] else s1)"

definition circle :: "QtNumbers \<Rightarrow> QPointF \<Rightarrow> qreal \<Rightarrow> string \<Rightarrow> QTikzPicturePrivate \<Rightarrow> QTikzPicturePrivate" where
  "circle Q center radius options d =
     (case ts d of
        None \<Rightarrow> d
      | Some s \<Rightarrow>
          if radius \<le> 0 then d
          else d\<lparr>ts := Some (puts Q (draw_head Q options s)
                 [Text '' ('', Double (x center), Text '', '', Double (y center),
                  Text '') circle ('', Double radius, Text ''cm);\<newline>''])\<rparr>)"

text \<open>\<open>line(const QPointF & p, const QPointF & q, options)\<close>.\<close>

definition line :: "QtNumbers \<Rightarrow> QPointF \<Rightarrow> QPointF \<Rightarrow> string \<Rightarrow> QTikzPicturePrivate \<Rightarrow> QTikzPicturePrivate" where
  "line Q p q options d =
     (case ts d of
        None \<Rightarrow> d
      | Some s \<Rightarrow>
          d\<lparr>ts := Some (puts Q (draw_head Q options s)
            [Text '' ('', Double (x p), Text '', '', Double (y p), Text '') -- ('',
             Double (x q), Text '', '', Double (y q), Text '');\<newline>''])\<rparr>)"

text \<open>
  \<open>line(const QVector<QPointF> & points, options)\<close>: the loop writes every point but the
  last, each followed by \<open>" --"\<close>; the indices it reads are below \<open>size - 1\<close>.
\<close>

function line_loop :: "QtNumbers \<Rightarrow> QPointF list \<Rightarrow> int \<Rightarrow> int \<Rightarrow> QTextStream \<Rightarrow> QTextStream" where
  "line_loop Q points i sz s =
     (if i < sz - 1
      then line_loop Q points (i + 1) sz
             (puts Q s [Text '' ('', Double (x (points ! nat i)), Text '', '',
                        Double (y (points ! nat i)), Text '') --''])
      else s)"
  by pat_completeness auto
termination
  by (relation "measure (\<lambda>(Q, points, i, sz, s). nat (sz - 1 - i))") auto

definition line_points :: "QtNumbers \<Rightarrow> QPointF list \<Rightarrow> string \<Rightarrow> QTikzPicturePrivate \<Rightarrow> QTikzPicturePrivate" where
  "line_points Q points options d =
     (case ts d of
        None \<Rightarrow> d
      | Some s \<Rightarrow>
          if int (length points) < 2 then d
          else
            (let sz = int (length points);
                 s1 = line_loop Q points 0 sz (draw_head Q options s)
             in d\<lparr>ts := Some (puts Q s1
                  [Text '' ('', Double (x (points ! nat (sz - 1))), Text '', '',
                   Double (y (points ! nat (sz - 1))), Text '');\<newline>''])\<rparr>))"

text \<open>The four \<open>operator<<\<close> of the picture.\<close>

definition insert_QString :: "QtNumbers \<Rightarrow> string \<Rightarrow> QTikzPicturePrivate \<Rightarrow> QTikzPicturePrivate" where
  "insert_QString Q text d =
     (case ts d of
        None \<Rightarrow> d
      | Some s \<Rightarrow> if text = [] then d else d\<lparr>ts := Some (puts Q s [Text text])\<rparr>)"

definition insert_chars :: "QtNumbers \<Rightarrow> string \<Rightarrow> QTikzPicturePrivate \<Rightarrow> QTikzPicturePrivate" where
  "insert_chars Q text d = insert_QString Q text d"

definition insert_double :: "QtNumbers \<Rightarrow> qreal \<Rightarrow> QTikzPicturePrivate \<Rightarrow> QTikzPicturePrivate" where
  "insert_double Q number d =
     (case ts d of None \<Rightarrow> d | Some s \<Rightarrow> d\<lparr>ts := Some (puts Q s [Double number])\<rparr>)"

definition insert_int :: "QtNumbers \<Rightarrow> int \<Rightarrow> QTikzPicturePrivate \<Rightarrow> QTikzPicturePrivate" where
  "insert_int Q number d =
     (case ts d of None \<Rightarrow> d | Some s \<Rightarrow> d\<lparr>ts := Some (puts Q s [Integer number])\<rparr>)"

section \<open>The picture: the revision with \<open>writePath\<close>\<close>

text \<open>
  The later revision of the file (in \<open>src/unnamed/part_001\<close>) keeps \<open>setStream\<close>,
  \<open>registerColor\<close>, \<open>begin\<close>, \<open>end\<close>, \<open>beginScope\<close>, \<open>endScope\<close>, \<open>newline\<close>,
  \<open>comment\<close>, \<open>line\<close> for a vector of points and the four \<open>operator<<\<close> as they are
  above. Its \<open>toCoord\<close> formats with \<open>l.toString(v, 'g', precision)\<close>; it compiles
  polygons, lines and circles as well, and all of \<open>path\<close>, \<open>draw\<close>, \<open>fill\<close> and
  \<open>clip\<close> go through \<open>writePath\<close>.
\<close>

definition num_g :: "QtNumbers \<Rightarrow> QTikzPicturePrivate \<Rightarrow> qreal \<Rightarrow> string" where
  "num_g Q d v = localeStringG Q v (precision d)"

text \<open>
  \<open>toTikzPath(const QPolygonF &)\<close>. The initialiser of \<open>end\<close> is
  \<open>polygon.size() - polygon.isClosed() ? 1 : 0\<close>; in C++ the subtraction binds tighter
  than the conditional operator, so the condition is the difference (the \<open>bool\<close> promoted
  to \<open>int\<close>) and \<open>end\<close> is 1 or 0.
\<close>

definition polygon_end :: "QPolygonF \<Rightarrow> int" where
  "polygon_end polygon =
     (if int (length polygon) - (if isClosed polygon then 1 else 0) \<noteq> 0 then 1 else 0)"

text \<open>
  The loop \<open>for (int i = 0; i < end; ++i)\<close>. It reads \<open>polygon[i]\<close> only for \<open>i < end\<close>,
  and \<open>end\<close> is at most 1 on a polygon that is not empty.
\<close>

function toTikzPath_polygon_loop :: "(qreal \<Rightarrow> string) \<Rightarrow> QPolygonF \<Rightarrow> int \<Rightarrow> int \<Rightarrow> string \<Rightarrow> string" where
  "toTikzPath_polygon_loop num polygon i endIdx path =
     (if i < endIdx
      then toTikzPath_polygon_loop num polygon (i + 1) endIdx
             (if i = 0 then toCoord num (polygon ! nat i)
              else if i = endIdx - 1 then path @ '' -- cycle''
              else path @ '' -- '' @ toCoord num (polygon ! nat i))
      else path)"
  by pat_completeness auto
termination
  by (relation "measure (\<lambda>(num, polygon, i, endIdx, path). nat (endIdx - i))") auto

definition toTikzPath_polygon :: "(qreal \<Rightarrow> string) \<Rightarrow> QPolygonF \<Rightarrow> string" where
  "toTikzPath_polygon num polygon =
     (if polygon = [] then []
      else toTikzPath_polygon_loop num polygon 0 (polygon_end polygon) [])"

text \<open>\<open>toTikzPath(const QLineF &)\<close> and \<open>toTikzPath(const QPointF &, qreal)\<close>.\<close>

definition toTikzPath_line :: "(qreal \<Rightarrow> string) \<Rightarrow> QLineF \<Rightarrow> string" where
  "toTikzPath_line num segment = toCoord num (p1 segment) @ '' -- '' @ toCoord num (p2 segment)"

definition toTikzPath_circle :: "(qreal \<Rightarrow> string) \<Rightarrow> QPointF \<Rightarrow> qreal \<Rightarrow> string" where
  "toTikzPath_circle num circleCenter radius =
     (if radius < 0 then []
      else toCoord num circleCenter @ '' circle ('' @ num radius @ ''cm)'')"

definition writePath :: "QtNumbers \<Rightarrow> string \<Rightarrow> string \<Rightarrow> string \<Rightarrow> QTikzPicturePrivate \<Rightarrow> QTikzPicturePrivate" where
  "writePath Q cmd options path d =
     (case ts d of
        None \<Rightarrow> d
      | Some s \<Rightarrow>
          if path = [] then d
          else
            (let s1 = puts Q s [Text cmd];
                 s2 = (if options \<noteq> [] then puts Q s1 [Text ''['', Text options, Text '']''] else s1)
             in d\<lparr>ts := Some (puts Q s2 [Text '' '', Text path, Text '';\<newline>''])\<rparr>))"

text \<open>
  The overloads of \<open>path\<close>, \<open>draw\<close> and \<open>fill\<close>: for a painter path, a rectangle, a
  polygon, a line, two points and a circle (center and radius); then the two of \<open>clip\<close>.
\<close>

definition path_path :: "QtNumbers \<Rightarrow> QPainterPath \<Rightarrow> string \<Rightarrow> QTikzPicturePrivate \<Rightarrow> QTikzPicturePrivate" where
  "path_path Q painterPath options d =
     writePath Q (bslash # ''path'') options (toTikzPath (num_g Q d) painterPath) d"

definition path_rect :: "QtNumbers \<Rightarrow> QRectF \<Rightarrow> string \<Rightarrow> QTikzPicturePrivate \<Rightarrow> QTikzPicturePrivate" where
  "path_rect Q rect options d =
     writePath Q (bslash # ''path'') options (toTikzPath_rect (num_g Q d) rect) d"

definition path_polygon :: "QtNumbers \<Rightarrow> QPolygonF \<Rightarrow> string \<Rightarrow> QTikzPicturePrivate \<Rightarrow> QTikzPicturePrivate" where
  "path_polygon Q polygon options d =
     writePath Q (bslash # ''path'') options (toTikzPath_polygon (num_g Q d) polygon) d"

definition path_line :: "QtNumbers \<Rightarrow> QLineF \<Rightarrow> string \<Rightarrow> QTikzPicturePrivate \<Rightarrow> QTikzPicturePrivate" where
  "path_line Q segment options d =
     writePath Q (bslash # ''path'') options (toTikzPath_line (num_g Q d) segment) d"

definition path_points :: "QtNumbers \<Rightarrow> QPointF \<Rightarrow> QPointF \<Rightarrow> string \<Rightarrow> QTikzPicturePrivate \<Rightarrow> QTikzPicturePrivate" where
  "path_points Q pt1 pt2 options d =
     writePath Q (bslash # ''path'') options (toTikzPath_line (num_g Q d) \<lparr>p1 = pt1, p2 = pt2\<rparr>) d"

definition path_circle :: "QtNumbers \<Rightarrow> QPointF \<Rightarrow> qreal \<Rightarrow> string \<Rightarrow> QTikzPicturePrivate \<Rightarrow> QTikzPicturePrivate" where
  "path_circle Q circleCenter radius options d =
     writePath Q (bslash # ''path'') options (toTikzPath_circle (num_g Q d) circleCenter radius) d"

definition draw_path :: "QtNumbers \<Rightarrow> QPainterPath \<Rightarrow> string \<Rightarrow> QTikzPicturePrivate \<Rightarrow> QTikzPicturePrivate" where
  "draw_path Q painterPath options d =
     writePath Q (bslash # ''draw'') options (toTikzPath (num_g Q d) painterPath) d"

definition draw_rect :: "QtNumbers \<Rightarrow> QRectF \<Rightarrow> string \<Rightarrow> QTikzPicturePrivate \<Rightarrow> QTikzPicturePrivate" where
  "draw_rect Q rect options d =
     writePath Q (bslash # ''draw'') options (toTikzPath_rect (num_g Q d) rect) d"

definition draw_polygon :: "QtNumbers \<Rightarrow> QPolygonF \<Rightarrow> string \<Rightarrow> QTikzPicturePrivate \<Rightarrow> QTikzPicturePrivate" where
  "draw_polygon Q polygon options d =
     writePath Q (bslash # ''draw'') options (toTikzPath_polygon (num_g Q d) polygon) d"

definition draw_line :: "QtNumbers \<Rightarrow> QLineF \<Rightarrow> string \<Rightarrow> QTikzPicturePrivate \<Rightarrow> QTikzPicturePrivate" where
  "draw_line Q segment options d =
     writePath Q (bslash # ''draw'') options (toTikzPath_line (num_g Q d) segment) d"

definition draw_points :: "QtNumbers \<Rightarrow> QPointF \<Rightarrow> QPointF \<Rightarrow> string \<Rightarrow> QTikzPicturePrivate \<Rightarrow> QTikzPicturePrivate" where
  "draw_points Q pt1 pt2 options d =
     writePath Q (bslash # ''draw'') options (toTikzPath_line (num_g Q d) \<lparr>p1 = pt1, p2 = pt2\<rparr>) d"

definition draw_circle :: "QtNumbers \<Rightarrow> QPointF \<Rightarrow> qreal \<Rightarrow> string \<Rightarrow> QTikzPicturePrivate \<Rightarrow> QTikzPicturePrivate" where
  "draw_circle Q circleCenter radius options d =
     writePath Q (bslash # ''draw'') options (toTikzPath_circle (num_g Q d) circleCenter radius) d"

definition fill_path :: "QtNumbers \<Rightarrow> QPainterPath \<Rightarrow> string \<Rightarrow> QTikzPicturePrivate \<Rightarrow> QTikzPicturePrivate" where
  "fill_path Q painterPath options d =
     writePath Q (bslash # ''fill'') options (toTikzPath (num_g Q d) painterPath) d"

definition fill_rect :: "QtNumbers \<Rightarrow> QRectF \<Rightarrow> string \<Rightarrow> QTikzPicturePrivate \<Rightarrow> QTikzPicturePrivate" where
  "fill_rect Q rect options d =
     writePath Q (bslash # ''fill'') options (toTikzPath_rect (num_g Q d) rect) d"

definition fill_polygon :: "QtNumbers \<Rightarrow> QPolygonF \<Rightarrow> string \<Rightarrow> QTikzPicturePrivate \<Rightarrow> QTikzPicturePrivate" where
  "fill_polygon Q polygon options d =
     writePath Q (bslash # ''fill'') options (toTikzPath_polygon (num_g Q d) polygon) d"

definition fill_line :: "QtNumbers \<Rightarrow> QLineF \<Rightarrow> string \<Rightarrow> QTikzPicturePrivate \<Rightarrow> QTikzPicturePrivate" where
  "fill_line Q segment options d =
     writePath Q (bslash # ''fill'') options (toTikzPath_line (num_g Q d) segment) d"

definition fill_points :: "QtNumbers \<Rightarrow> QPointF \<Rightarrow> QPointF \<Rightarrow> string \<Rightarrow> QTikzPicturePrivate \<Rightarrow> QTikzPicturePrivate" where
  "fill_points Q pt1 pt2 options d =
     writePath Q (bslash # ''fill'') options (toTikzPath_line (num_g Q d) \<lparr>p1 = pt1, p2 = pt2\<rparr>) d"

definition fill_circle :: "QtNumbers \<Rightarrow> QPointF \<Rightarrow> qreal \<Rightarrow> string \<Rightarrow> QTikzPicturePrivate \<Rightarrow> QTikzPicturePrivate" where
  "fill_circle Q circleCenter radius options d =
     writePath Q (bslash # ''fill'') options (toTikzPath_circle (num_g Q d) circleCenter radius) d"

definition clip_path :: "QtNumbers \<Rightarrow> QPainterPath \<Rightarrow> QTikzPicturePrivate \<Rightarrow> QTikzPicturePrivate" where
  "clip_path Q painterPath d =
     writePath Q (bslash # ''clip'') [] (toTikzPath (num_g Q d) painterPath) d"

definition clip_rect :: "QtNumbers \<Rightarrow> QRectF \<Rightarrow> QTikzPicturePrivate \<Rightarrow> QTikzPicturePrivate" where
  "clip_rect Q rect d =
     writePath Q (bslash # ''clip'') [] (toTikzPath_rect (num_g Q d) rect) d"

section \<open>Path compilation: properties\<close>

lemma toTikzPath_loop_append:
  "toTikzPath_loop num (es @ fs) st = toTikzPath_loop num fs (toTikzPath_loop num es st)"
  by (induction es arbitrary: st) simp_all

lemma toTikzPath_step_counter:
  assumes "currentControlPoint st \<in> {0, 1, 2}"
  shows "currentControlPoint (toTikzPath_step num st e) \<in> {0, 1, 2}"
  using assms by (cases "type e") (auto simp: toTikzPath_step_def Let_def)

lemma toTikzPath_loop_counter:
  assumes "currentControlPoint st \<in> {0, 1, 2}"
  shows "currentControlPoint (toTikzPath_loop num es st) \<in> {0, 1, 2}"
  using assms
proof (induction es arbitrary: st)
  case Nil
  then show ?case by simp
next
  case (Cons e es)
  have "currentControlPoint (toTikzPath_step num st e) \<in> {0, 1, 2}"
    by (rule toTikzPath_step_counter) (rule Cons.prems)
  then have "currentControlPoint (toTikzPath_loop num es (toTikzPath_step num st e)) \<in> {0, 1, 2}"
    by (rule Cons.IH)
  then show ?case by simp
qed

text \<open>
  Claim C1, evaluated on the code. For a path of one \<open>MoveToElement\<close> followed by one
  \<open>LineToElement\<close>, whatever the coordinates and the number formatting, the path compiler
  returns the empty text: the only sub-path is still in \<open>currentPath\<close> when the loop ends
  and is never appended to \<open>pathList\<close>. The claim expects the text of the two coordinates
  joined by \<open>" -- "\<close>.
\<close>

theorem toTikzPath_single_subpath_dropped:
  "toTikzPath num [\<lparr>x = x1, y = y1, type = MoveToElement\<rparr>,
                   \<lparr>x = x2, y = y2, type = LineToElement\<rparr>] = []"
  by (simp add: toTikzPath_def isEmpty_path_def toTikzPath_step_def initialPathState_def)

text \<open>
  Claim C2, evaluated on the code. For a path of two sub-paths, each a \<open>MoveToElement\<close>
  followed by a \<open>LineToElement\<close>, the path compiler returns the text of the first
  sub-path with the suffix \<open>" -- cycle"\<close> and nothing else: the second sub-path is not in
  the result, and no newline joins the two.
\<close>

theorem toTikzPath_second_subpath_dropped:
  "toTikzPath num [\<lparr>x = x1, y = y1, type = MoveToElement\<rparr>,
                   \<lparr>x = x2, y = y2, type = LineToElement\<rparr>,
                   \<lparr>x = x3, y = y3, type = MoveToElement\<rparr>,
                   \<lparr>x = x4, y = y4, type = LineToElement\<rparr>]
   = toCoord num \<lparr>x = x1, y = y1\<rparr> @ '' -- '' @ toCoord num \<lparr>x = x2, y = y2\<rparr> @ '' -- cycle''"
  by (simp add: toTikzPath_def isEmpty_path_def toTikzPath_step_def initialPathState_def
      toCoord_def)

text \<open>
  Claim C9. After any element sequence \<open>es\<close> the pending counter is 0, 1 or 2, and
  the next element \<open>e\<close> is handled as follows. A \<open>CurveToElement\<close> appends
  \<open>" .. controls "\<close> and its coordinate to the in-progress sub-path and sets the counter
  to 1. A \<open>CurveToDataElement\<close> appends \<open>" and "\<close> and its coordinate and sets the
  counter to 2 when the counter is 1; appends \<open>" .. "\<close> and its coordinate and resets
  the counter to 0 when the counter is 2; and leaves the whole loop state (the in-progress
  text, the completed sub-paths and the counter) unchanged when the counter is 0.
\<close>

theorem toTikzPath_control_point_machine:
  "let st = toTikzPath_loop num es initialPathState;
       st' = toTikzPath_loop num (es @ [e]) initialPathState
   in currentControlPoint st \<in> {0, 1, 2} \<and>
      (type e = CurveToElement \<longrightarrow>
         st' = st\<lparr>currentPath := currentPath st @ '' .. controls '' @ toCoord num e,
                  currentControlPoint := 1\<rparr>) \<and>
      (type e = CurveToDataElement \<and> currentControlPoint st = 1 \<longrightarrow>
         st' = st\<lparr>currentPath := currentPath st @ '' and '' @ toCoord num e,
                  currentControlPoint := 2\<rparr>) \<and>
      (type e = CurveToDataElement \<and> currentControlPoint st = 2 \<longrightarrow>
         st' = st\<lparr>currentPath := currentPath st @ '' .. '' @ toCoord num e,
                  currentControlPoint := 0\<rparr>) \<and>
      (type e = CurveToDataElement \<and> currentControlPoint st = 0 \<longrightarrow> st' = st)"
proof -
  have inv: "currentControlPoint (toTikzPath_loop num es initialPathState) \<in> {0, 1, 2}"
    by (rule toTikzPath_loop_counter) (simp add: initialPathState_def)
  have step: "toTikzPath_loop num (es @ [e]) initialPathState =
      toTikzPath_step num (toTikzPath_loop num es initialPathState) e"
    by (simp add: toTikzPath_loop_append)
  show ?thesis
    unfolding Let_def step using inv by (simp add: toTikzPath_step_def)
qed

theorem toTikzPath_control_point_machine_witness:
  "toTikzPath_loop (\<lambda>v. ''0'')
     [\<lparr>x = 0, y = 0, type = MoveToElement\<rparr>, \<lparr>x = 0, y = 0, type = CurveToElement\<rparr>]
     initialPathState
   = \<lparr>pathList = [], currentPath = ''(0, 0) .. controls (0, 0)'', currentControlPoint = 1\<rparr> \<and>
   toTikzPath_loop (\<lambda>v. ''0'')
     [\<lparr>x = 0, y = 0, type = MoveToElement\<rparr>, \<lparr>x = 0, y = 0, type = CurveToElement\<rparr>,
      \<lparr>x = 0, y = 0, type = CurveToDataElement\<rparr>]
     initialPathState
   = \<lparr>pathList = [], currentPath = ''(0, 0) .. controls (0, 0) and (0, 0)'',
      currentControlPoint = 2\<rparr> \<and>
   toTikzPath_loop (\<lambda>v. ''0'')
     [\<lparr>x = 0, y = 0, type = MoveToElement\<rparr>, \<lparr>x = 0, y = 0, type = CurveToElement\<rparr>,
      \<lparr>x = 0, y = 0, type = CurveToDataElement\<rparr>, \<lparr>x = 0, y = 0, type = CurveToDataElement\<rparr>]
     initialPathState
   = \<lparr>pathList = [], currentPath = ''(0, 0) .. controls (0, 0) and (0, 0) .. (0, 0)'',
      currentControlPoint = 0\<rparr> \<and>
   toTikzPath_loop (\<lambda>v. ''0'')
     [\<lparr>x = 0, y = 0, type = MoveToElement\<rparr>, \<lparr>x = 0, y = 0, type = CurveToDataElement\<rparr>]
     initialPathState
   = \<lparr>pathList = [], currentPath = ''(0, 0)'', currentControlPoint = 0\<rparr>"
proof -
  let ?n = "\<lambda>v::qreal. ''0''"
  let ?M = "\<lparr>x = 0, y = 0, type = MoveToElement\<rparr>"
  let ?C = "\<lparr>x = 0, y = 0, type = CurveToElement\<rparr>"
  let ?D = "\<lparr>x = 0, y = 0, type = CurveToDataElement\<rparr>"
  have s1: "toTikzPath_loop ?n [?M] initialPathState
      = \<lparr>pathList = [], currentPath = ''(0, 0)'', currentControlPoint = 0\<rparr>"
    by (simp add: toTikzPath_step_def initialPathState_def toCoord_def)
  have a: "toTikzPath_loop ?n ([?M] @ [?C]) initialPathState
      = \<lparr>pathList = [], currentPath = ''(0, 0) .. controls (0, 0)'', currentControlPoint = 1\<rparr>"
    using toTikzPath_control_point_machine [of ?n "[?M]" ?C]
    unfolding Let_def s1 by (simp add: toCoord_def)
  have b: "toTikzPath_loop ?n ([?M, ?C] @ [?D]) initialPathState
      = \<lparr>pathList = [], currentPath = ''(0, 0) .. controls (0, 0) and (0, 0)'',
         currentControlPoint = 2\<rparr>"
    using toTikzPath_control_point_machine [of ?n "[?M, ?C]" ?D] a
    unfolding Let_def by (simp add: toCoord_def)
  have c: "toTikzPath_loop ?n ([?M, ?C, ?D] @ [?D]) initialPathState
      = \<lparr>pathList = [], currentPath = ''(0, 0) .. controls (0, 0) and (0, 0) .. (0, 0)'',
         currentControlPoint = 0\<rparr>"
    using toTikzPath_control_point_machine [of ?n "[?M, ?C, ?D]" ?D] b
    unfolding Let_def by (simp add: toCoord_def)
  have d: "toTikzPath_loop ?n ([?M] @ [?D]) initialPathState
      = \<lparr>pathList = [], currentPath = ''(0, 0)'', currentControlPoint = 0\<rparr>"
    using toTikzPath_control_point_machine [of ?n "[?M]" ?D]
    unfolding Let_def s1 by simp
  from a b c d show ?thesis by simp
qed

section \<open>Polygons\<close>

lemma polygon_end_two: "polygon_end (p # q # rest) = 1"
  by (simp add: polygon_end_def)

lemma toTikzPath_polygon_loop_one:
  "toTikzPath_polygon_loop num polygon 0 1 acc = toCoord num (polygon ! 0)"
proof -
  have "toTikzPath_polygon_loop num polygon 0 1 acc
      = toTikzPath_polygon_loop num polygon 1 1 (toCoord num (polygon ! 0))"
    by (subst toTikzPath_polygon_loop.simps) simp
  also have "\<dots> = toCoord num (polygon ! 0)"
    by (subst toTikzPath_polygon_loop.simps) simp
  finally show ?thesis .
qed

text \<open>
  Claim C5, evaluated on the code. For every polygon with at least two points, closed or
  open, the polygon compiler returns the coordinate of the first point and nothing else:
  \<open>end\<close> is 1, so the loop runs once. The claim expects all the coordinates joined by
  \<open>" -- "\<close>, and \<open>" -- cycle"\<close> at the end of a closed polygon.
\<close>

theorem toTikzPath_polygon_first_point_only:
  "toTikzPath_polygon num (p # q # rest) = toCoord num p"
  by (simp add: toTikzPath_polygon_def polygon_end_two toTikzPath_polygon_loop_one)

section \<open>The stream and its precision\<close>

text \<open>
  Claim C7 as stated fails for a negative precision: \<open>setStream\<close> stores the clamped
  value but hands the argument itself to \<open>setRealNumberPrecision\<close>. With \<open>p = -1\<close> the
  stored precision is 0 and the precision of the stream is not.
\<close>

theorem setStream_negative_precision_counterexample:
  "precision (setStream (Some \<lparr>buf = [], realNumberPrecision = 6,
                               realNumberNotation = SmartNotation\<rparr>) (- 1) QTikzPicture) = 0 \<and>
   realNumberPrecision
     (the (ts (setStream (Some \<lparr>buf = [], realNumberPrecision = 6,
                                realNumberNotation = SmartNotation\<rparr>) (- 1) QTikzPicture)))
     \<noteq> max 0 (- 1)"
  by (simp add: setStream_def QTikzPicture_def setRealNumberPrecision_def
      setRealNumberNotation_def)

text \<open>
  Claim C7, amended. For every integer \<open>p\<close>, every stream \<open>s\<close> and every state of the
  picture, after \<open>setStream(&s, p)\<close> the stored precision is \<open>max 0 p\<close>, the stream is
  still the one given with its text untouched, and its notation is fixed-point; when
  \<open>p\<close> is not negative the precision of the stream is the stored precision.
\<close>

theorem setStream_precision:
  "precision (setStream (Some s) p d) = max 0 p \<and>
   (\<exists>s'. ts (setStream (Some s) p d) = Some s' \<and>
         buf s' = buf s \<and>
         realNumberNotation s' = FixedNotation \<and>
         (0 \<le> p \<longrightarrow> realNumberPrecision s' = max 0 p))"
  by (simp add: setStream_def setRealNumberPrecision_def setRealNumberNotation_def)

theorem setStream_precision_witness:
  "(0::int) \<le> 3 \<and>
   precision (setStream (Some \<lparr>buf = [], realNumberPrecision = 6,
                               realNumberNotation = SmartNotation\<rparr>) 3 QTikzPicture) = 3 \<and>
   ts (setStream (Some \<lparr>buf = [], realNumberPrecision = 6,
                        realNumberNotation = SmartNotation\<rparr>) 3 QTikzPicture)
     = Some \<lparr>buf = [], realNumberPrecision = 3, realNumberNotation = FixedNotation\<rparr>"
proof -
  let ?s = "\<lparr>buf = [], realNumberPrecision = 6, realNumberNotation = SmartNotation\<rparr>"
  from setStream_precision [of ?s 3 QTikzPicture]
  obtain s' where p: "precision (setStream (Some ?s) 3 QTikzPicture) = max 0 3"
    and t: "ts (setStream (Some ?s) 3 QTikzPicture) = Some s'"
    and b: "buf s' = buf ?s"
    and n: "realNumberNotation s' = FixedNotation"
    and r: "(0::int) \<le> 3 \<longrightarrow> realNumberPrecision s' = max 0 3"
    by blast
  from b n r have "s' = \<lparr>buf = [], realNumberPrecision = 3, realNumberNotation = FixedNotation\<rparr>"
    by (cases s') simp
  with p t show ?thesis by simp
qed

section \<open>Lines\<close>

lemma draw_head_buf:
  "draw_head Q options s
     = s\<lparr>buf := buf s @ bslash # ''draw'' @ (if options = [] then [] else ''['' @ options @ '']'')\<rparr>"
  by (simp add: draw_head_def puts_def)

text \<open>
  Claim C10. With a stream set, \<open>line(p, p, options)\<close> appends to the stream the complete
  command \<open>\draw (x, y) -- (x, y);\<close> and a newline, where \<open>x\<close> and \<open>y\<close> are the
  coordinates of \<open>p\<close> as the stream formats them; options that are not empty stand in
  brackets after \<open>\draw\<close>, as in every draw command. Nothing else of the state changes,
  and no test on the two points filters the line out.
\<close>

theorem line_same_point:
  assumes "ts d = Some s"
  shows "line Q p p options d =
     d\<lparr>ts := Some (s\<lparr>buf := buf s @ bslash # ''draw''
                        @ (if options = [] then [] else ''['' @ options @ '']'')
                        @ '' ('' @ streamReal Q (realNumberNotation s) (realNumberPrecision s) (x p)
                        @ '', '' @ streamReal Q (realNumberNotation s) (realNumberPrecision s) (y p)
                        @ '') -- ('' @ streamReal Q (realNumberNotation s) (realNumberPrecision s) (x p)
                        @ '', '' @ streamReal Q (realNumberNotation s) (realNumberPrecision s) (y p)
                        @ '');\<newline>''\<rparr>)\<rparr>"
  using assms by (simp add: line_def draw_head_buf puts_def)

theorem line_same_point_witness:
  "ts (line \<lparr>localeString = (\<lambda>v. ''0''), localeStringG = (\<lambda>v p. ''0''),
              streamReal = (\<lambda>n p v. ''0.00''), streamInt = (\<lambda>i. ''0'')\<rparr>
         \<lparr>x = 0, y = 0\<rparr> \<lparr>x = 0, y = 0\<rparr> []
         (setStream (Some \<lparr>buf = [], realNumberPrecision = 6,
                            realNumberNotation = SmartNotation\<rparr>) 2 QTikzPicture))
   = Some \<lparr>buf = bslash # ''draw (0.00, 0.00) -- (0.00, 0.00);\<newline>'',
            realNumberPrecision = 2, realNumberNotation = FixedNotation\<rparr>"
proof -
  let ?s = "\<lparr>buf = [], realNumberPrecision = 2, realNumberNotation = FixedNotation\<rparr>"
  let ?d = "setStream (Some \<lparr>buf = [], realNumberPrecision = 6,
                            realNumberNotation = SmartNotation\<rparr>) 2 QTikzPicture"
  have "ts ?d = Some ?s"
    by (simp add: setStream_def QTikzPicture_def setRealNumberPrecision_def
        setRealNumberNotation_def)
  from line_same_point [OF this] show ?thesis by simp
qed

section \<open>Circles\<close>

lemma writePath_buf:
  assumes "ts d = Some s"
  shows "writePath Q cmd options path d =
     (if path = [] then d
      else d\<lparr>ts := Some (s\<lparr>buf := buf s @ cmd
                  @ (if options = [] then [] else ''['' @ options @ '']'')
                  @ '' '' @ path @ '';\<newline>''\<rparr>)\<rparr>)"
  using assms by (simp add: writePath_def puts_def Let_def)

lemma toTikzPath_circle_empty:
  "toTikzPath_circle num circleCenter radius = [] \<longleftrightarrow> radius < 0"
  by (simp add: toTikzPath_circle_def toCoord_def)

text \<open>
  Claim C4 as stated fails for the circle overloads of \<open>path\<close>, \<open>draw\<close> and \<open>fill\<close> at
  radius zero: their compiler skips a circle only when \<open>radius < 0\<close>, so a circle of
  radius zero is written to the stream.
\<close>

theorem draw_circle_zero_radius_counterexample:
  "ts (draw_circle \<lparr>localeString = (\<lambda>v. ''0''), localeStringG = (\<lambda>v p. ''0''),
                     streamReal = (\<lambda>n p v. ''0.00''), streamInt = (\<lambda>i. ''0'')\<rparr>
         \<lparr>x = 0, y = 0\<rparr> 0 []
         \<lparr>ts = Some \<lparr>buf = [], realNumberPrecision = 2, realNumberNotation = FixedNotation\<rparr>,
          colors = Map.empty, precision = 2\<rparr>)
   = Some \<lparr>buf = bslash # ''draw (0, 0) circle (0cm);\<newline>'',
            realNumberPrecision = 2, realNumberNotation = FixedNotation\<rparr>"
  by (simp add: draw_circle_def writePath_def toTikzPath_circle_def toCoord_def num_g_def
      puts_def)

text \<open>
  Claim C4, amended. With a stream set and for every center: the \<open>circle\<close> command
  writes nothing when the radius is zero or negative, and the circle overloads of
  \<open>path\<close>, \<open>draw\<close> and \<open>fill\<close> write nothing when the radius is negative. Otherwise
  (a positive radius for \<open>circle\<close>, a radius that is not negative for the overloads) the
  operation appends one command to the stream, and its text contains \<open>circle (\<close>, the
  formatted radius and \<open>cm)\<close>; nothing else of the state changes.
\<close>

theorem circle_output:
  assumes "ts d = Some s"
  shows
    "(radius \<le> 0 \<longrightarrow> circle Q center radius options d = d) \<and>
     (0 < radius \<longrightarrow>
        circle Q center radius options d =
          d\<lparr>ts := Some (s\<lparr>buf := buf s @ bslash # ''draw''
             @ (if options = [] then [] else ''['' @ options @ '']'')
             @ '' ('' @ streamReal Q (realNumberNotation s) (realNumberPrecision s) (x center)
             @ '', '' @ streamReal Q (realNumberNotation s) (realNumberPrecision s) (y center)
             @ '') circle ('' @ streamReal Q (realNumberNotation s) (realNumberPrecision s) radius
             @ ''cm);\<newline>''\<rparr>)\<rparr>) \<and>
     (radius < 0 \<longrightarrow>
        path_circle Q center radius options d = d \<and>
        draw_circle Q center radius options d = d \<and>
        fill_circle Q center radius options d = d) \<and>
     (0 \<le> radius \<longrightarrow>
        path_circle Q center radius options d =
          d\<lparr>ts := Some (s\<lparr>buf := buf s @ bslash # ''path''
             @ (if options = [] then [] else ''['' @ options @ '']'')
             @ '' '' @ toCoord (num_g Q d) center
             @ '' circle ('' @ num_g Q d radius @ ''cm)'' @ '';\<newline>''\<rparr>)\<rparr> \<and>
        draw_circle Q center radius options d =
          d\<lparr>ts := Some (s\<lparr>buf := buf s @ bslash # ''draw''
             @ (if options = [] then [] else ''['' @ options @ '']'')
             @ '' '' @ toCoord (num_g Q d) center
             @ '' circle ('' @ num_g Q d radius @ ''cm)'' @ '';\<newline>''\<rparr>)\<rparr> \<and>
        fill_circle Q center radius options d =
          d\<lparr>ts := Some (s\<lparr>buf := buf s @ bslash # ''fill''
             @ (if options = [] then [] else ''['' @ options @ '']'')
             @ '' '' @ toCoord (num_g Q d) center
             @ '' circle ('' @ num_g Q d radius @ ''cm)'' @ '';\<newline>''\<rparr>)\<rparr>)"
proof -
  have c1: "radius \<le> 0 \<longrightarrow> circle Q center radius options d = d"
    using assms by (simp add: circle_def)
  have c2: "0 < radius \<longrightarrow>
        circle Q center radius options d =
          d\<lparr>ts := Some (s\<lparr>buf := buf s @ bslash # ''draw''
             @ (if options = [] then [] else ''['' @ options @ '']'')
             @ '' ('' @ streamReal Q (realNumberNotation s) (realNumberPrecision s) (x center)
             @ '', '' @ streamReal Q (realNumberNotation s) (realNumberPrecision s) (y center)
             @ '') circle ('' @ streamReal Q (realNumberNotation s) (realNumberPrecision s) radius
             @ ''cm);\<newline>''\<rparr>)\<rparr>"
    using assms by (simp add: circle_def draw_head_buf puts_def)
  have c3: "radius < 0 \<longrightarrow>
        path_circle Q center radius options d = d \<and>
        draw_circle Q center radius options d = d \<and>
        fill_circle Q center radius options d = d"
    by (simp add: path_circle_def draw_circle_def fill_circle_def writePath_buf [OF assms]
        toTikzPath_circle_empty)
  have e: "0 \<le> radius \<Longrightarrow> toTikzPath_circle (num_g Q d) center radius
       = toCoord (num_g Q d) center @ '' circle ('' @ num_g Q d radius @ ''cm)''"
    by (simp add: toTikzPath_circle_def)
  have ne: "0 \<le> radius \<Longrightarrow> toTikzPath_circle (num_g Q d) center radius \<noteq> []"
    by (simp add: toTikzPath_circle_empty)
  have c4: "0 \<le> radius \<longrightarrow>
        path_circle Q center radius options d =
          d\<lparr>ts := Some (s\<lparr>buf := buf s @ bslash # ''path''
             @ (if options = [] then [] else ''['' @ options @ '']'')
             @ '' '' @ toCoord (num_g Q d) center
             @ '' circle ('' @ num_g Q d radius @ ''cm)'' @ '';\<newline>''\<rparr>)\<rparr>"
    using ne by (simp add: path_circle_def writePath_buf [OF assms] e)
  have c5: "0 \<le> radius \<longrightarrow>
        draw_circle Q center radius options d =
          d\<lparr>ts := Some (s\<lparr>buf := buf s @ bslash # ''draw''
             @ (if options = [] then [] else ''['' @ options @ '']'')
             @ '' '' @ toCoord (num_g Q d) center
             @ '' circle ('' @ num_g Q d radius @ ''cm)'' @ '';\<newline>''\<rparr>)\<rparr>"
    using ne by (simp add: draw_circle_def writePath_buf [OF assms] e)
  have c6: "0 \<le> radius \<longrightarrow>
        fill_circle Q center radius options d =
          d\<lparr>ts := Some (s\<lparr>buf := buf s @ bslash # ''fill''
             @ (if options = [] then [] else ''['' @ options @ '']'')
             @ '' '' @ toCoord (num_g Q d) center
             @ '' circle ('' @ num_g Q d radius @ ''cm)'' @ '';\<newline>''\<rparr>)\<rparr>"
    using ne by (simp add: fill_circle_def writePath_buf [OF assms] e)
  from c1 c2 c3 c4 c5 c6 show ?thesis by blast
qed


theorem circle_output_witness:
  "circle \<lparr>localeString = (\<lambda>v. ''0''),
            localeStringG = (\<lambda>v p. if v = 0 then ''0'' else ''1.5''),
            streamReal = (\<lambda>n p v. if v = 0 then ''0.00'' else ''1.50''),
            streamInt = (\<lambda>i. ''0'')\<rparr>
      \<lparr>x = 0, y = 0\<rparr> (- 1) []
      \<lparr>ts = Some \<lparr>buf = [], realNumberPrecision = 2, realNumberNotation = FixedNotation\<rparr>,
       colors = Map.empty, precision = 2\<rparr>
   = \<lparr>ts = Some \<lparr>buf = [], realNumberPrecision = 2, realNumberNotation = FixedNotation\<rparr>,
      colors = Map.empty, precision = 2\<rparr> \<and>
   fill_circle \<lparr>localeString = (\<lambda>v. ''0''),
            localeStringG = (\<lambda>v p. if v = 0 then ''0'' else ''1.5''),
            streamReal = (\<lambda>n p v. if v = 0 then ''0.00'' else ''1.50''),
            streamInt = (\<lambda>i. ''0'')\<rparr>
      \<lparr>x = 0, y = 0\<rparr> (- 1) []
      \<lparr>ts = Some \<lparr>buf = [], realNumberPrecision = 2, realNumberNotation = FixedNotation\<rparr>,
       colors = Map.empty, precision = 2\<rparr>
   = \<lparr>ts = Some \<lparr>buf = [], realNumberPrecision = 2, realNumberNotation = FixedNotation\<rparr>,
      colors = Map.empty, precision = 2\<rparr> \<and>
   ts (circle \<lparr>localeString = (\<lambda>v. ''0''),
            localeStringG = (\<lambda>v p. if v = 0 then ''0'' else ''1.5''),
            streamReal = (\<lambda>n p v. if v = 0 then ''0.00'' else ''1.50''),
            streamInt = (\<lambda>i. ''0'')\<rparr>
      \<lparr>x = 0, y = 0\<rparr> (3 / 2) []
      \<lparr>ts = Some \<lparr>buf = [], realNumberPrecision = 2, realNumberNotation = FixedNotation\<rparr>,
       colors = Map.empty, precision = 2\<rparr>)
   = Some \<lparr>buf = bslash # ''draw (0.00, 0.00) circle (1.50cm);\<newline>'',
            realNumberPrecision = 2, realNumberNotation = FixedNotation\<rparr> \<and>
   ts (fill_circle \<lparr>localeString = (\<lambda>v. ''0''),
            localeStringG = (\<lambda>v p. if v = 0 then ''0'' else ''1.5''),
            streamReal = (\<lambda>n p v. if v = 0 then ''0.00'' else ''1.50''),
            streamInt = (\<lambda>i. ''0'')\<rparr>
      \<lparr>x = 0, y = 0\<rparr> (3 / 2) ''red''
      \<lparr>ts = Some \<lparr>buf = [], realNumberPrecision = 2, realNumberNotation = FixedNotation\<rparr>,
       colors = Map.empty, precision = 2\<rparr>)
   = Some \<lparr>buf = bslash # ''fill[red] (0, 0) circle (1.5cm);\<newline>'',
            realNumberPrecision = 2, realNumberNotation = FixedNotation\<rparr>"
proof -
  let ?Q = "\<lparr>localeString = (\<lambda>v. ''0''),
            localeStringG = (\<lambda>v p. if v = 0 then ''0'' else ''1.5''),
            streamReal = (\<lambda>n p v. if v = 0 then ''0.00'' else ''1.50''),
            streamInt = (\<lambda>i. ''0'')\<rparr>"
  let ?s = "\<lparr>buf = [], realNumberPrecision = 2, realNumberNotation = FixedNotation\<rparr>"
  let ?d = "\<lparr>ts = Some ?s, colors = Map.empty, precision = 2\<rparr>"
  let ?c = "\<lparr>x = 0, y = 0\<rparr>"
  have t: "ts ?d = Some ?s" by simp
  have neg: "(- 1 :: real) \<le> 0" "(- 1 :: real) < 0" by simp_all
  have pos: "(0 :: real) < 3 / 2" "(0 :: real) \<le> 3 / 2" by simp_all
  from circle_output [OF t, of "- 1" ?Q ?c "[]"] neg
  have a: "circle ?Q ?c (- 1) [] ?d = ?d" and b: "fill_circle ?Q ?c (- 1) [] ?d = ?d"
    by blast+
  from circle_output [OF t, of "3 / 2" ?Q ?c "[]"] pos
  have c: "ts (circle ?Q ?c (3 / 2) [] ?d)
      = Some \<lparr>buf = bslash # ''draw (0.00, 0.00) circle (1.50cm);\<newline>'',
               realNumberPrecision = 2, realNumberNotation = FixedNotation\<rparr>"
    by simp
  from circle_output [OF t, of "3 / 2" ?Q ?c "''red''"] pos
  have d: "ts (fill_circle ?Q ?c (3 / 2) ''red'' ?d)
      = Some \<lparr>buf = bslash # ''fill[red] (0, 0) circle (1.5cm);\<newline>'',
               realNumberPrecision = 2, realNumberNotation = FixedNotation\<rparr>"
    by (simp add: toCoord_def num_g_def)
  from a b c d show ?thesis by simp
qed

section \<open>The null stream\<close>

lemma writePath_null: "ts d = None \<Longrightarrow> writePath Q cmd options path d = d"
  by (simp add: writePath_def)

lemma registerColor_null:
  assumes "ts d = None"
  shows "registerColor Q color d =
     (if color = Qt_red then ''red''
      else if color = Qt_green then ''green''
      else if color = Qt_blue then ''blue''
      else if color = Qt_black then ''black''
      else if color = Qt_white then ''white''
      else if color = Qt_cyan then ''cyan''
      else if color = Qt_magenta then ''magenta''
      else if color = Qt_yellow then ''yellow''
      else registerColor_name color,
      if color \<in> predefined \<or> registerColor_name color \<in> dom (colors d) then d
      else d\<lparr>colors := (colors d)(registerColor_name color \<mapsto> True)\<rparr>)"
  using assms by (simp add: registerColor_def predefined_def Let_def)

text \<open>
  Claim C8 as stated fails for \<open>registerColor\<close>: with no stream set, registering a color
  that is not predefined still enters its name into the hash, so the state of the picture
  changes (and the function returns the name).
\<close>

theorem registerColor_null_stream_counterexample:
  "ts QTikzPicture = None \<and>
   registerColor \<lparr>localeString = (\<lambda>v. ''0''), localeStringG = (\<lambda>v p. ''0''),
                   streamReal = (\<lambda>n p v. ''0''), streamInt = (\<lambda>i. ''0'')\<rparr>
     \<lparr>red = 1, green = 2, blue = 3\<rparr> QTikzPicture
   = (''cqrqsqt'', QTikzPicture\<lparr>colors := [''cqrqsqt'' \<mapsto> True]\<rparr>) \<and>
   QTikzPicture\<lparr>colors := [''cqrqsqt'' \<mapsto> True]\<rparr> \<noteq> QTikzPicture"
proof -
  have n: "registerColor_name \<lparr>red = 1, green = 2, blue = 3\<rparr> = ''cqrqsqt''"
    by (simp add: registerColor_name_def QColor_name_def hex2_def hexDigit_def
        transliterate_def replace_def)
  have p: "\<lparr>red = 1, green = 2, blue = 3\<rparr> \<notin> predefined"
    by (simp add: predefined_def Qt_red_def Qt_green_def Qt_blue_def Qt_black_def
        Qt_white_def Qt_cyan_def Qt_magenta_def Qt_yellow_def)
  have t: "ts QTikzPicture = None" by (simp add: QTikzPicture_def)
  have c: "colors QTikzPicture = Map.empty" by (simp add: QTikzPicture_def)
  have r: "registerColor Q \<lparr>red = 1, green = 2, blue = 3\<rparr> QTikzPicture
      = (''cqrqsqt'', QTikzPicture\<lparr>colors := [''cqrqsqt'' \<mapsto> True]\<rparr>)" for Q
    using p by (simp add: registerColor_null [OF t] n c predefined_def)
  have "colors (QTikzPicture\<lparr>colors := [''cqrqsqt'' \<mapsto> True]\<rparr>) ''cqrqsqt''
      \<noteq> colors QTikzPicture ''cqrqsqt''"
    by (simp add: c)
  then have "QTikzPicture\<lparr>colors := [''cqrqsqt'' \<mapsto> True]\<rparr> \<noteq> QTikzPicture"
    by metis
  with t r show ?thesis by simp
qed


lemma null_stream_main:
  assumes "ts d = None"
  shows
    "begin_tikzpicture Q options d = d \<and>
     end_tikzpicture Q d = d \<and>
     beginScope Q options d = d \<and>
     endScope Q d = d \<and>
     newline Q cnt d = d \<and>
     comment Q str d = d \<and>
     path_QPainterPath Q painterPath options d = d \<and>
     path_QRectF Q rect options d = d \<and>
     clip_QPainterPath Q painterPath d = d \<and>
     clip_QRectF Q rect d = d \<and>
     circle Q center radius options d = d \<and>
     line Q pt1 pt2 options d = d \<and>
     line_points Q points options d = d \<and>
     insert_QString Q str d = d \<and>
     insert_chars Q str d = d \<and>
     insert_double Q number d = d \<and>
     insert_int Q inum d = d"
  using assms
  by (simp add: begin_tikzpicture_def end_tikzpicture_def beginScope_def endScope_def
      newline_def comment_def path_QPainterPath_def path_QRectF_def
      clip_QPainterPath_def clip_QRectF_def circle_def line_def
      line_points_def insert_QString_def insert_chars_def insert_double_def
      insert_int_def)

lemma null_stream_writePath:
  assumes "ts d = None"
  shows
    "path_path Q painterPath options d = d \<and>
     path_rect Q rect options d = d \<and>
     path_polygon Q polygon options d = d \<and>
     path_line Q segment options d = d \<and>
     path_points Q pt1 pt2 options d = d \<and>
     path_circle Q center radius options d = d \<and>
     draw_path Q painterPath options d = d \<and>
     draw_rect Q rect options d = d \<and>
     draw_polygon Q polygon options d = d \<and>
     draw_line Q segment options d = d \<and>
     draw_points Q pt1 pt2 options d = d \<and>
     draw_circle Q center radius options d = d \<and>
     fill_path Q painterPath options d = d \<and>
     fill_rect Q rect options d = d \<and>
     fill_polygon Q polygon options d = d \<and>
     fill_line Q segment options d = d \<and>
     fill_points Q pt1 pt2 options d = d \<and>
     fill_circle Q center radius options d = d \<and>
     clip_path Q painterPath d = d \<and>
     clip_rect Q rect d = d"
  by (simp add: writePath_null [OF assms]
      path_path_def path_rect_def path_polygon_def path_line_def
      path_points_def path_circle_def draw_path_def draw_rect_def
      draw_polygon_def draw_line_def draw_points_def draw_circle_def
      fill_path_def fill_rect_def fill_polygon_def fill_line_def
      fill_points_def fill_circle_def clip_path_def clip_rect_def)

text \<open>
  Claim C8, amended. With no stream set, every operation of the picture returns without
  writing (the stream pointer stays null). All of them except \<open>registerColor\<close> leave
  the state of the picture unchanged: \<open>begin\<close>, \<open>end\<close>, \<open>beginScope\<close>, \<open>endScope\<close>,
  \<open>newline\<close>, \<open>comment\<close>, \<open>path\<close>, \<open>clip\<close>, \<open>circle\<close>, both \<open>line\<close> functions and
  the four \<open>operator<<\<close> of \<open>src/src/qtikzpicture.cpp\<close>, and every overload of \<open>path\<close>,
  \<open>draw\<close>, \<open>fill\<close> and \<open>clip\<close> of the revision with \<open>writePath\<close>. \<open>registerColor\<close>
  returns the name of the color; it leaves the state unchanged for a predefined color and
  for a name that is already in the hash, and otherwise enters the name into the hash and
  changes nothing else.
\<close>

theorem null_stream_operations:
  assumes "ts d = None"
  shows
    "(begin_tikzpicture Q options d = d \<and>
     end_tikzpicture Q d = d \<and>
     beginScope Q options d = d \<and>
     endScope Q d = d \<and>
     newline Q cnt d = d \<and>
     comment Q str d = d \<and>
     path_QPainterPath Q painterPath options d = d \<and>
     path_QRectF Q rect options d = d \<and>
     clip_QPainterPath Q painterPath d = d \<and>
     clip_QRectF Q rect d = d \<and>
     circle Q center radius options d = d \<and>
     line Q pt1 pt2 options d = d \<and>
     line_points Q points options d = d \<and>
     insert_QString Q str d = d \<and>
     insert_chars Q str d = d \<and>
     insert_double Q number d = d \<and>
     insert_int Q inum d = d) \<and>
     (path_path Q painterPath options d = d \<and>
     path_rect Q rect options d = d \<and>
     path_polygon Q polygon options d = d \<and>
     path_line Q segment options d = d \<and>
     path_points Q pt1 pt2 options d = d \<and>
     path_circle Q center radius options d = d \<and>
     draw_path Q painterPath options d = d \<and>
     draw_rect Q rect options d = d \<and>
     draw_polygon Q polygon options d = d \<and>
     draw_line Q segment options d = d \<and>
     draw_points Q pt1 pt2 options d = d \<and>
     draw_circle Q center radius options d = d \<and>
     fill_path Q painterPath options d = d \<and>
     fill_rect Q rect options d = d \<and>
     fill_polygon Q polygon options d = d \<and>
     fill_line Q segment options d = d \<and>
     fill_points Q pt1 pt2 options d = d \<and>
     fill_circle Q center radius options d = d \<and>
     clip_path Q painterPath d = d \<and>
     clip_rect Q rect d = d) \<and>
     ts (snd (registerColor Q color d)) = None \<and>
     precision (snd (registerColor Q color d)) = precision d \<and>
     colors (snd (registerColor Q color d)) =
       (if color \<in> predefined \<or> registerColor_name color \<in> dom (colors d) then colors d
        else (colors d)(registerColor_name color \<mapsto> True))"
proof -
  have r: "ts (snd (registerColor Q color d)) = None \<and>
     precision (snd (registerColor Q color d)) = precision d \<and>
     colors (snd (registerColor Q color d)) =
       (if color \<in> predefined \<or> registerColor_name color \<in> dom (colors d) then colors d
        else (colors d)(registerColor_name color \<mapsto> True))"
    using assms by (simp add: registerColor_null [OF assms])
  have m:
    "begin_tikzpicture Q options d = d \<and>
     end_tikzpicture Q d = d \<and>
     beginScope Q options d = d \<and>
     endScope Q d = d \<and>
     newline Q cnt d = d \<and>
     comment Q str d = d \<and>
     path_QPainterPath Q painterPath options d = d \<and>
     path_QRectF Q rect options d = d \<and>
     clip_QPainterPath Q painterPath d = d \<and>
     clip_QRectF Q rect d = d \<and>
     circle Q center radius options d = d \<and>
     line Q pt1 pt2 options d = d \<and>
     line_points Q points options d = d \<and>
     insert_QString Q str d = d \<and>
     insert_chars Q str d = d \<and>
     insert_double Q number d = d \<and>
     insert_int Q inum d = d"
    by (rule null_stream_main [OF assms])
  have v:
    "path_path Q painterPath options d = d \<and>
     path_rect Q rect options d = d \<and>
     path_polygon Q polygon options d = d \<and>
     path_line Q segment options d = d \<and>
     path_points Q pt1 pt2 options d = d \<and>
     path_circle Q center radius options d = d \<and>
     draw_path Q painterPath options d = d \<and>
     draw_rect Q rect options d = d \<and>
     draw_polygon Q polygon options d = d \<and>
     draw_line Q segment options d = d \<and>
     draw_points Q pt1 pt2 options d = d \<and>
     draw_circle Q center radius options d = d \<and>
     fill_path Q painterPath options d = d \<and>
     fill_rect Q rect options d = d \<and>
     fill_polygon Q polygon options d = d \<and>
     fill_line Q segment options d = d \<and>
     fill_points Q pt1 pt2 options d = d \<and>
     fill_circle Q center radius options d = d \<and>
     clip_path Q painterPath d = d \<and>
     clip_rect Q rect d = d"
    by (rule null_stream_writePath [OF assms])
  show ?thesis by (rule conjI [OF m conjI [OF v r]])
qed

theorem null_stream_operations_witness:
  "ts QTikzPicture = None \<and>
   comment \<lparr>localeString = (\<lambda>v. ''0''), localeStringG = (\<lambda>v p. ''0''),
             streamReal = (\<lambda>n p v. ''0''), streamInt = (\<lambda>i. ''0'')\<rparr>
     ''Hello World!'' QTikzPicture = QTikzPicture \<and>
   draw_circle \<lparr>localeString = (\<lambda>v. ''0''), localeStringG = (\<lambda>v p. ''0''),
             streamReal = (\<lambda>n p v. ''0''), streamInt = (\<lambda>i. ''0'')\<rparr>
     \<lparr>x = 0, y = 0\<rparr> 1 [] QTikzPicture = QTikzPicture \<and>
   colors (snd (registerColor \<lparr>localeString = (\<lambda>v. ''0''), localeStringG = (\<lambda>v p. ''0''),
             streamReal = (\<lambda>n p v. ''0''), streamInt = (\<lambda>i. ''0'')\<rparr>
     Qt_red QTikzPicture)) = Map.empty"
proof -
  let ?Q = "\<lparr>localeString = (\<lambda>v. ''0''), localeStringG = (\<lambda>v p. ''0''),
             streamReal = (\<lambda>n p v. ''0''), streamInt = (\<lambda>i. ''0'')\<rparr>"
  have t: "ts QTikzPicture = None" by (simp add: QTikzPicture_def)
  have c: "colors QTikzPicture = Map.empty" by (simp add: QTikzPicture_def)
  have p: "Qt_red \<in> predefined" by (simp add: predefined_def)
  from null_stream_operations [OF t, where Q = "?Q" and str = "''Hello World!''"]
  have a: "comment ?Q ''Hello World!'' QTikzPicture = QTikzPicture" by blast
  from null_stream_operations [OF t, where Q = "?Q" and center = "\<lparr>x = 0, y = 0\<rparr>"
      and radius = 1 and options = "[]"]
  have b: "draw_circle ?Q \<lparr>x = 0, y = 0\<rparr> 1 [] QTikzPicture = QTikzPicture" by blast
  from null_stream_operations [OF t, where Q = "?Q" and color = Qt_red]
  have "colors (snd (registerColor ?Q Qt_red QTikzPicture)) =
       (if Qt_red \<in> predefined \<or> registerColor_name Qt_red \<in> dom (colors QTikzPicture)
        then colors QTikzPicture
        else (colors QTikzPicture)(registerColor_name Qt_red \<mapsto> True))"
    by blast
  with p c have "colors (snd (registerColor ?Q Qt_red QTikzPicture)) = Map.empty" by simp
  with t a b show ?thesis by simp
qed

section \<open>Color names\<close>

lemma replace_append: "replace b a (u @ v) = replace b a u @ replace b a v"
  by (simp add: replace_def)

lemma transliterate_append: "transliterate (u @ v) = transliterate u @ transliterate v"
  by (simp add: transliterate_def replace_append)

lemma transliterate_hexDigit:
  assumes "n < 16"
  shows "transliterate [hexDigit n] = [''qrstuvwxyzabcdef'' ! n]"
proof -
  have "list_all (\<lambda>k. transliterate [hexDigit k] = [''qrstuvwxyzabcdef'' ! k]) [0..<16]"
    by code_simp
  then show ?thesis
    using assms by (simp add: list_all_iff)
qed

lemma unat_byte: "unat (v :: 8 word) < 256"
  using unsigned_less [of v, where 'a = nat] by simp

lemma transliterate_hex2:
  "transliterate (hex2 v)
     = [''qrstuvwxyzabcdef'' ! (unat v div 16), ''qrstuvwxyzabcdef'' ! (unat v mod 16)]"
proof -
  have "unat v < 256" using unat_byte [of v] by simp
  then have hi: "unat v div 16 < 16" by simp
  have lo: "unat v mod 16 < 16" by simp
  have "transliterate (hex2 v)
      = transliterate [hexDigit (unat v div 16)] @ transliterate [hexDigit (unat v mod 16)]"
    unfolding hex2_def by (subst transliterate_append [symmetric]) simp
  then show ?thesis by (simp add: transliterate_hexDigit [OF hi] transliterate_hexDigit [OF lo])
qed

lemma transliterate_hex2_inj:
  assumes "transliterate (hex2 v) = transliterate (hex2 w)"
  shows "v = w"
proof -
  have bv: "unat v div 16 < 16" using unat_byte [of v] by simp
  have bw: "unat w div 16 < 16" using unat_byte [of w] by simp
  have d: "distinct ''qrstuvwxyzabcdef''" by simp
  from assms have hi: "''qrstuvwxyzabcdef'' ! (unat v div 16) = ''qrstuvwxyzabcdef'' ! (unat w div 16)"
    and lo: "''qrstuvwxyzabcdef'' ! (unat v mod 16) = ''qrstuvwxyzabcdef'' ! (unat w mod 16)"
    by (simp_all add: transliterate_hex2)
  from hi bv bw have 1: "unat v div 16 = unat w div 16"
    by (simp add: nth_eq_iff_index_eq [OF d])
  from lo have 2: "unat v mod 16 = unat w mod 16"
    by (simp add: nth_eq_iff_index_eq [OF d])
  have "unat v = 16 * (unat v div 16) + unat v mod 16" by simp
  also have "\<dots> = 16 * (unat w div 16) + unat w mod 16" by (simp only: 1 2)
  also have "\<dots> = unat w" by simp
  finally show ?thesis by (simp add: word_unat_eq_iff)
qed

lemma registerColor_name_parts:
  "registerColor_name color
     = CHR ''c'' # transliterate (hex2 (red color)) @ transliterate (hex2 (green color))
         @ transliterate (hex2 (blue color))"
  by (simp add: registerColor_name_def QColor_name_def transliterate_append)

lemma length_transliterate_hex2: "length (transliterate (hex2 v)) = 2"
  by (simp add: transliterate_hex2)

lemma registerColor_name_inj:
  assumes "registerColor_name c1 = registerColor_name c2"
  shows "c1 = c2"
proof -
  from assms have
    "transliterate (hex2 (red c1)) @ transliterate (hex2 (green c1)) @ transliterate (hex2 (blue c1))
     = transliterate (hex2 (red c2)) @ transliterate (hex2 (green c2)) @ transliterate (hex2 (blue c2))"
    by (simp add: registerColor_name_parts)
  then have "transliterate (hex2 (red c1)) = transliterate (hex2 (red c2))"
    and "transliterate (hex2 (green c1)) = transliterate (hex2 (green c2))"
    and "transliterate (hex2 (blue c1)) = transliterate (hex2 (blue c2))"
    by (simp_all add: length_transliterate_hex2)
  then have "red c1 = red c2" and "green c1 = green c2" and "blue c1 = blue c2"
    by (simp_all add: transliterate_hex2_inj)
  then show ?thesis by simp
qed

lemma registerColor_fst:
  "fst (registerColor Q color d) =
     (if color = Qt_red then ''red''
      else if color = Qt_green then ''green''
      else if color = Qt_blue then ''blue''
      else if color = Qt_black then ''black''
      else if color = Qt_white then ''white''
      else if color = Qt_cyan then ''cyan''
      else if color = Qt_magenta then ''magenta''
      else if color = Qt_yellow then ''yellow''
      else registerColor_name color)"
  by (simp add: registerColor_def Let_def)

lemma registerColor_fst_not_predefined:
  assumes "color \<notin> predefined"
  shows "fst (registerColor Q color d) = registerColor_name color"
  using assms by (simp add: registerColor_fst predefined_def)

text \<open>
  Claim C6. Two distinct colors, neither of them one of the eight predefined colors, get
  two distinct names from \<open>registerColor\<close>, in whatever states of the picture the two
  calls are made: such a name is \<open>c\<close> followed by the six hex digits of the color with
  the digits 0 to 9 replaced by the letters q to z, and this determines the three
  channels.
\<close>

theorem registerColor_names_distinct:
  assumes "c1 \<noteq> c2" and "c1 \<notin> predefined" and "c2 \<notin> predefined"
  shows "fst (registerColor Q1 c1 d1) \<noteq> fst (registerColor Q2 c2 d2)"
proof
  assume "fst (registerColor Q1 c1 d1) = fst (registerColor Q2 c2 d2)"
  then have "registerColor_name c1 = registerColor_name c2"
    using assms(2,3) by (simp add: registerColor_fst_not_predefined)
  then have "c1 = c2" by (rule registerColor_name_inj)
  with assms(1) show False by contradiction
qed

theorem registerColor_names_distinct_witness:
  "\<lparr>red = 100, green = 200, blue = 0\<rparr> \<noteq> \<lparr>red = 1, green = 2, blue = 3\<rparr> \<and>
   \<lparr>red = 100, green = 200, blue = 0\<rparr> \<notin> predefined \<and>
   \<lparr>red = 1, green = 2, blue = 3\<rparr> \<notin> predefined \<and>
   fst (registerColor \<lparr>localeString = (\<lambda>v. ''0''), localeStringG = (\<lambda>v p. ''0''),
                        streamReal = (\<lambda>n p v. ''0''), streamInt = (\<lambda>i. ''0'')\<rparr>
          \<lparr>red = 100, green = 200, blue = 0\<rparr> QTikzPicture)
   \<noteq> fst (registerColor \<lparr>localeString = (\<lambda>v. ''0''), localeStringG = (\<lambda>v p. ''0''),
                          streamReal = (\<lambda>n p v. ''0''), streamInt = (\<lambda>i. ''0'')\<rparr>
            \<lparr>red = 1, green = 2, blue = 3\<rparr> QTikzPicture)"
proof -
  let ?a = "\<lparr>red = 100, green = 200, blue = 0\<rparr>"
  let ?b = "\<lparr>red = 1, green = 2, blue = 3\<rparr>"
  have ne: "?a \<noteq> ?b" by simp
  have pa: "?a \<notin> predefined"
    by (simp add: predefined_def Qt_red_def Qt_green_def Qt_blue_def Qt_black_def
        Qt_white_def Qt_cyan_def Qt_magenta_def Qt_yellow_def)
  have pb: "?b \<notin> predefined"
    by (simp add: predefined_def Qt_red_def Qt_green_def Qt_blue_def Qt_black_def
        Qt_white_def Qt_cyan_def Qt_magenta_def Qt_yellow_def)
  from registerColor_names_distinct [OF ne pa pb] ne pa pb show ?thesis by blast
qed

section \<open>Registering a color repeatedly\<close>

lemma registerColor_predefined:
  assumes "color \<in> predefined"
  shows "snd (registerColor Q color d) = d"
proof -
  from assms consider "color = Qt_red" | "color = Qt_green" | "color = Qt_blue"
    | "color = Qt_black" | "color = Qt_white" | "color = Qt_cyan" | "color = Qt_magenta"
    | "color = Qt_yellow"
    unfolding predefined_def by blast
  then show ?thesis
    by cases (simp_all add: registerColor_def)
qed

lemma registerColor_not_predefined:
  assumes "color \<notin> predefined"
  shows "registerColor Q color d =
     (if registerColor_name color \<notin> dom (colors d)
      then (registerColor_name color,
            d\<lparr>ts := map_option (definecolor Q (registerColor_name color) color) (ts d),
              colors := (colors d)(registerColor_name color \<mapsto> True)\<rparr>)
      else (registerColor_name color, d))"
proof -
  from assms have ne: "color \<noteq> Qt_red" "color \<noteq> Qt_green" "color \<noteq> Qt_blue"
    "color \<noteq> Qt_black" "color \<noteq> Qt_white" "color \<noteq> Qt_cyan" "color \<noteq> Qt_magenta"
    "color \<noteq> Qt_yellow"
    by (simp_all add: predefined_def)
  have "registerColor Q color d =
     (let nm = registerColor_name color in
         if nm \<notin> dom (colors d) then
           (let d1 = (case ts d of
                        None \<Rightarrow> d
                      | Some s \<Rightarrow> d\<lparr>ts := Some (definecolor Q nm color s)\<rparr>)
            in (nm, d1\<lparr>colors := (colors d1)(nm \<mapsto> True)\<rparr>))
         else (nm, d))"
    unfolding registerColor_def by (simp only: ne if_False)
  also have "\<dots> = (if registerColor_name color \<notin> dom (colors d)
      then (registerColor_name color,
            d\<lparr>ts := map_option (definecolor Q (registerColor_name color) color) (ts d),
              colors := (colors d)(registerColor_name color \<mapsto> True)\<rparr>)
      else (registerColor_name color, d))"
    by (cases "ts d") (simp_all add: Let_def)
  finally show ?thesis .
qed

lemma registerColor_snd:
  "snd (registerColor Q color d) =
     (if color \<notin> predefined \<and> registerColor_name color \<notin> dom (colors d)
      then d\<lparr>ts := map_option (definecolor Q (registerColor_name color) color) (ts d),
             colors := (colors d)(registerColor_name color \<mapsto> True)\<rparr>
      else d)"
proof (cases "color \<in> predefined")
  case True
  then show ?thesis by (simp add: registerColor_predefined)
next
  case False
  then show ?thesis by (simp add: registerColor_not_predefined)
qed

lemma registerColor_fst_state: "fst (registerColor Q color d) = fst (registerColor Q color d')"
  by (simp add: registerColor_fst)

lemma registerColor_snd_again:
  "snd (registerColor Q color (snd (registerColor Q color d))) = snd (registerColor Q color d)"
  by (simp add: registerColor_snd)

lemma registerColor_times_eq:
  "registerColor_times Q n color d =
     (replicate n (fst (registerColor Q color d)),
      if 0 < n then snd (registerColor Q color d) else d)"
proof (induction n arbitrary: d)
  case 0
  show ?case by simp
next
  case (Suc n)
  obtain nm d1 where r: "registerColor Q color d = (nm, d1)"
    by (cases "registerColor Q color d")
  have f: "fst (registerColor Q color d1) = nm"
    using r registerColor_fst_state [of Q color d1 d] by simp
  have s: "snd (registerColor Q color d1) = d1"
    using r registerColor_snd_again [of Q color d] by simp
  show ?case by (simp add: r Suc.IH f s)
qed


text \<open>
  Claim C3 as stated fails in its "exactly once" part. \<open>registerColor\<close> enters the name
  into the hash even when no stream is set, so a color registered before \<open>setStream\<close> is
  never defined afterwards: on a new picture, register \<open>QColor(1, 2, 3)\<close>, then set a
  stream, then register the same color three more times. The stream is set and the color
  is not predefined, every call returns the same name, and nothing is written.
\<close>

theorem registerColor_before_setStream_counterexample:
  "\<lparr>red = 1, green = 2, blue = 3\<rparr> \<notin> predefined \<and>
   ts (setStream (Some \<lparr>buf = [], realNumberPrecision = 6, realNumberNotation = SmartNotation\<rparr>) 2
         (snd (registerColor
                 \<lparr>localeString = (\<lambda>v. ''0''), localeStringG = (\<lambda>v p. ''0''),
                  streamReal = (\<lambda>n p v. ''0.00''), streamInt = (\<lambda>i. ''0'')\<rparr>
                 \<lparr>red = 1, green = 2, blue = 3\<rparr> QTikzPicture)))
     = Some \<lparr>buf = [], realNumberPrecision = 2, realNumberNotation = FixedNotation\<rparr> \<and>
   fst (registerColor_times
          \<lparr>localeString = (\<lambda>v. ''0''), localeStringG = (\<lambda>v p. ''0''),
           streamReal = (\<lambda>n p v. ''0.00''), streamInt = (\<lambda>i. ''0'')\<rparr>
          3 \<lparr>red = 1, green = 2, blue = 3\<rparr>
          (setStream (Some \<lparr>buf = [], realNumberPrecision = 6, realNumberNotation = SmartNotation\<rparr>) 2
             (snd (registerColor
                     \<lparr>localeString = (\<lambda>v. ''0''), localeStringG = (\<lambda>v p. ''0''),
                      streamReal = (\<lambda>n p v. ''0.00''), streamInt = (\<lambda>i. ''0'')\<rparr>
                     \<lparr>red = 1, green = 2, blue = 3\<rparr> QTikzPicture))))
     = [''cqrqsqt'', ''cqrqsqt'', ''cqrqsqt''] \<and>
   ts (snd (registerColor_times
          \<lparr>localeString = (\<lambda>v. ''0''), localeStringG = (\<lambda>v p. ''0''),
           streamReal = (\<lambda>n p v. ''0.00''), streamInt = (\<lambda>i. ''0'')\<rparr>
          3 \<lparr>red = 1, green = 2, blue = 3\<rparr>
          (setStream (Some \<lparr>buf = [], realNumberPrecision = 6, realNumberNotation = SmartNotation\<rparr>) 2
             (snd (registerColor
                     \<lparr>localeString = (\<lambda>v. ''0''), localeStringG = (\<lambda>v p. ''0''),
                      streamReal = (\<lambda>n p v. ''0.00''), streamInt = (\<lambda>i. ''0'')\<rparr>
                     \<lparr>red = 1, green = 2, blue = 3\<rparr> QTikzPicture)))))
     = Some \<lparr>buf = [], realNumberPrecision = 2, realNumberNotation = FixedNotation\<rparr>"
proof -
  let ?Q = "\<lparr>localeString = (\<lambda>v. ''0''), localeStringG = (\<lambda>v p. ''0''),
           streamReal = (\<lambda>n p v. ''0.00''), streamInt = (\<lambda>i. ''0'')\<rparr>"
  let ?c = "\<lparr>red = 1, green = 2, blue = 3\<rparr>"
  let ?init = "\<lparr>buf = [], realNumberPrecision = 6, realNumberNotation = SmartNotation\<rparr>"
  let ?s = "\<lparr>buf = [], realNumberPrecision = 2, realNumberNotation = FixedNotation\<rparr>"
  let ?d1 = "snd (registerColor ?Q ?c QTikzPicture)"
  let ?d2 = "setStream (Some ?init) 2 ?d1"
  have nm: "registerColor_name ?c = ''cqrqsqt''"
    by (simp add: registerColor_name_def QColor_name_def hex2_def hexDigit_def
        transliterate_def replace_def)
  have p: "?c \<notin> predefined"
    by (simp add: predefined_def Qt_red_def Qt_green_def Qt_blue_def Qt_black_def
        Qt_white_def Qt_cyan_def Qt_magenta_def Qt_yellow_def)
  have d1: "?d1 = QTikzPicture\<lparr>colors := [''cqrqsqt'' \<mapsto> True]\<rparr>"
    using p by (simp add: registerColor_snd nm QTikzPicture_def)
  have d2: "?d2 = \<lparr>ts = Some ?s, colors = [''cqrqsqt'' \<mapsto> True], precision = 2\<rparr>"
    unfolding d1
    by (simp add: setStream_def QTikzPicture_def setRealNumberPrecision_def
        setRealNumberNotation_def)
  have t: "ts ?d2 = Some ?s" unfolding d2 by simp
  have in_hash: "registerColor_name ?c \<in> dom (colors ?d2)"
    unfolding d2 by (simp add: nm)
  have again: "snd (registerColor ?Q ?c ?d2) = ?d2"
    using in_hash by (simp add: registerColor_snd)
  have f: "fst (registerColor ?Q ?c ?d2) = ''cqrqsqt''"
    using p by (simp add: registerColor_fst_not_predefined nm)
  have r: "registerColor_times ?Q 3 ?c ?d2 = ([''cqrqsqt'', ''cqrqsqt'', ''cqrqsqt''], ?d2)"
    by (simp add: registerColor_times_eq again f numeral_3_eq_3)
  from p t r show ?thesis by simp
qed

text \<open>
  Claim C3, amended. Let the same color be registered \<open>n\<close> times in a row, from any state of the
  picture. Every call returns the same name. The stream is either left as it was, or it
  is the stream before the calls with the \<open>\definecolor\<close> statement executed once on it:
  the definition is written at most once. It is written exactly once when a stream is
  set, there is at least one call, the color is not predefined and its name was not in
  the hash before these calls. Every entry that is in the hash before the calls is in it
  afterwards, and the precision is unchanged.
\<close>

theorem registerColor_idempotent:
  "case registerColor_times Q n color d of
     (nms, d') \<Rightarrow>
       nms = replicate n (fst (registerColor Q color d)) \<and>
       (ts d' = ts d \<or>
        (\<exists>s. ts d = Some s \<and>
             ts d' = Some (definecolor Q (registerColor_name color) color s))) \<and>
       (0 < n \<and> color \<notin> predefined \<and> registerColor_name color \<notin> dom (colors d) \<longrightarrow>
          (\<forall>s. ts d = Some s \<longrightarrow>
             ts d' = Some (definecolor Q (registerColor_name color) color s))) \<and>
       colors d \<subseteq>\<^sub>m colors d' \<and>
       precision d' = precision d"
proof -
  let ?d' = "if 0 < n then snd (registerColor Q color d) else d"
  have a: "ts ?d' = ts d \<or>
        (\<exists>s. ts d = Some s \<and>
             ts ?d' = Some (definecolor Q (registerColor_name color) color s))"
    by (cases "ts d") (simp_all add: registerColor_snd)
  have b: "0 < n \<and> color \<notin> predefined \<and> registerColor_name color \<notin> dom (colors d) \<longrightarrow>
          (\<forall>s. ts d = Some s \<longrightarrow>
             ts ?d' = Some (definecolor Q (registerColor_name color) color s))"
    by (simp add: registerColor_snd)
  have c: "colors d \<subseteq>\<^sub>m colors ?d'"
    by (auto simp: registerColor_snd map_le_def)
  have e: "precision ?d' = precision d"
    by (simp add: registerColor_snd)
  from a b c e show ?thesis
    unfolding registerColor_times_eq by simp
qed

lemma definecolor_buf:
  "definecolor Q nm color s =
     s\<lparr>buf := buf s @ bslash # ''definecolor{'' @ nm @ ''}{rgb}{''
          @ streamReal Q (realNumberNotation s) (realNumberPrecision s) (redF color) @ '', ''
          @ streamReal Q (realNumberNotation s) (realNumberPrecision s) (greenF color) @ '', ''
          @ streamReal Q (realNumberNotation s) (realNumberPrecision s) (blueF color)
          @ ''}\<newline>''\<rparr>"
  by (simp add: definecolor_def puts_def)

theorem registerColor_idempotent_witness:
  "\<lparr>red = 1, green = 2, blue = 3\<rparr> \<notin> predefined \<and>
   registerColor_name \<lparr>red = 1, green = 2, blue = 3\<rparr> \<notin> dom (colors QTikzPicture) \<and>
   fst (registerColor_times
          \<lparr>localeString = (\<lambda>v. ''0''), localeStringG = (\<lambda>v p. ''0''),
           streamReal = (\<lambda>n p v. ''0.00''), streamInt = (\<lambda>i. ''0'')\<rparr>
          2 \<lparr>red = 1, green = 2, blue = 3\<rparr>
          (QTikzPicture\<lparr>ts := Some \<lparr>buf = [], realNumberPrecision = 2,
                                      realNumberNotation = FixedNotation\<rparr>\<rparr>))
     = [''cqrqsqt'', ''cqrqsqt''] \<and>
   ts (snd (registerColor_times
          \<lparr>localeString = (\<lambda>v. ''0''), localeStringG = (\<lambda>v p. ''0''),
           streamReal = (\<lambda>n p v. ''0.00''), streamInt = (\<lambda>i. ''0'')\<rparr>
          2 \<lparr>red = 1, green = 2, blue = 3\<rparr>
          (QTikzPicture\<lparr>ts := Some \<lparr>buf = [], realNumberPrecision = 2,
                                      realNumberNotation = FixedNotation\<rparr>\<rparr>)))
     = Some \<lparr>buf = bslash # ''definecolor{cqrqsqt}{rgb}{0.00, 0.00, 0.00}\<newline>'',
              realNumberPrecision = 2, realNumberNotation = FixedNotation\<rparr>"
proof -
  let ?Q = "\<lparr>localeString = (\<lambda>v. ''0''), localeStringG = (\<lambda>v p. ''0''),
           streamReal = (\<lambda>n p v. ''0.00''), streamInt = (\<lambda>i. ''0'')\<rparr>"
  let ?c = "\<lparr>red = 1, green = 2, blue = 3\<rparr>"
  let ?s = "\<lparr>buf = [], realNumberPrecision = 2, realNumberNotation = FixedNotation\<rparr>"
  let ?d = "QTikzPicture\<lparr>ts := Some ?s\<rparr>"
  have nm: "registerColor_name ?c = ''cqrqsqt''"
    by (simp add: registerColor_name_def QColor_name_def hex2_def hexDigit_def
        transliterate_def replace_def)
  have p: "?c \<notin> predefined"
    by (simp add: predefined_def Qt_red_def Qt_green_def Qt_blue_def Qt_black_def
        Qt_white_def Qt_cyan_def Qt_magenta_def Qt_yellow_def)
  have fresh: "registerColor_name ?c \<notin> dom (colors QTikzPicture)"
    by (simp add: QTikzPicture_def)
  have fresh': "registerColor_name ?c \<notin> dom (colors ?d)"
    by (simp add: QTikzPicture_def)
  have t: "ts ?d = Some ?s" by simp
  have f: "fst (registerColor ?Q ?c ?d) = ''cqrqsqt''"
    using p by (simp add: registerColor_fst_not_predefined nm)
  obtain nms d' where r: "registerColor_times ?Q 2 ?c ?d = (nms, d')"
    by (cases "registerColor_times ?Q 2 ?c ?d")
  from registerColor_idempotent [where Q = "?Q" and n = 2 and color = "?c" and d = "?d"] p fresh' t
  have "nms = replicate 2 (fst (registerColor ?Q ?c ?d))"
    and "ts d' = Some (definecolor ?Q (registerColor_name ?c) ?c ?s)"
    unfolding r by simp_all
  then have "nms = [''cqrqsqt'', ''cqrqsqt'']"
    and "ts d' = Some \<lparr>buf = bslash # ''definecolor{cqrqsqt}{rgb}{0.00, 0.00, 0.00}\<newline>'',
              realNumberPrecision = 2, realNumberNotation = FixedNotation\<rparr>"
    by (simp_all add: f nm definecolor_buf numeral_2_eq_2)
  with p fresh show ?thesis unfolding r by simp
qed

end
